theory Spec2Isabelle
  imports Complex_Main
begin

section \<open>Celtic Orbit Explorer: the complex-dynamics engine of \<^verbatim>\<open>Main.cpp\<close>\<close>

text \<open>
  The program iterates one of four quadratic ``Celtic'' maps on the complex plane, once per
  pixel (\<^verbatim>\<open>computeFractal\<close>) and once per frame for the point under the mouse (the orbit
  loop of \<^verbatim>\<open>main\<close>).

  Numbers. The source computes in \<^verbatim>\<open>float\<close> and \<^verbatim>\<open>std::complex<float>\<close>. They are
  embedded as \<^typ>\<open>real\<close> and \<^typ>\<open>complex\<close>: \<^verbatim>\<open>z.real()\<close> is \<^const>\<open>Re\<close>,
  \<^verbatim>\<open>z.imag()\<close> is \<^const>\<open>Im\<close>, \<^verbatim>\<open>std::abs(z)\<close> is \<^const>\<open>cmod\<close>. Rounding, overflow
  to infinity and NaN are therefore outside this embedding, whose statements are statements
  of exact arithmetic; a second embedding, over values that can be infinite or NaN, follows
  it for what the loops do with such values. The \<^verbatim>\<open>int\<close> loop counters only ever hold values between 0 and their
  bound (100 and 1000), so they are naturals here.
\<close>

subsection \<open>Vectors and the constants of \<^verbatim>\<open>main\<close>\<close>

datatype Vector2f = Vector2f (vx: real) (vy: real)

datatype Vector2i = Vector2i (ix: int) (iy: int)

definition width :: int where
  "width = 800"

definition height :: int where
  "height = 600"

definition maxIter :: nat where
  "maxIter = 100"

definition zoomFactor :: real where
  "zoomFactor = 12 / 10"

definition maxOrbit :: nat where
  "maxOrbit = 1000"

subsection \<open>Mapping the screen to the complex plane\<close>

text \<open>
  \<^verbatim>\<open>screenToComplex(x, y, zoom, offset, width, height)\<close>, lines 22--27. The integer
  arguments are converted to floating point by the arithmetic (\<^verbatim>\<open>width / 2.f\<close>).
\<close>

definition screenToComplex :: "int \<Rightarrow> int \<Rightarrow> real \<Rightarrow> Vector2f \<Rightarrow> int \<Rightarrow> int \<Rightarrow> complex" where
  "screenToComplex x y zoom offset w h =
     Complex ((of_int x + vx offset - of_int w / 2) / zoom)
             ((of_int y + vy offset - of_int h / 2) / zoom)"

text \<open>
  The way back, written inline where the program places a point of the plane on the screen
  (the Julia marker, lines 258--259, and the orbit path, lines 290--291):
  \<^verbatim>\<open>x = z.real() * zoom + width / 2.f - offset.x\<close>, and the same for \<^verbatim>\<open>y\<close>.
\<close>

definition complexToScreen :: "complex \<Rightarrow> real \<Rightarrow> Vector2f \<Rightarrow> int \<Rightarrow> int \<Rightarrow> Vector2f" where
  "complexToScreen z zoom offset w h =
     Vector2f (Re z * zoom + of_int w / 2 - vx offset)
              (Im z * zoom + of_int h / 2 - vy offset)"

subsection \<open>The mouse wheel\<close>

text \<open>
  The \<^verbatim>\<open>MouseWheelScrolled\<close> branch of the event loop, lines 131--147, as a function from
  the view (\<^verbatim>\<open>zoom\<close>, \<^verbatim>\<open>offset\<close>) before the event to the view after it.
\<close>

definition mouseWheelScrolled :: "real \<Rightarrow> Vector2i \<Rightarrow> real \<times> Vector2f \<Rightarrow> real \<times> Vector2f" where
  "mouseWheelScrolled delta mouse view =
     (let zoom = fst view;
          offset = snd view;
          beforeZoom = screenToComplex (ix mouse) (iy mouse) zoom offset width height;
          zoom' = (if delta > 0 then zoom * zoomFactor
                   else if delta < 0 then zoom / zoomFactor
                   else zoom);
          afterZoom = screenToComplex (ix mouse) (iy mouse) zoom' offset width height;
          offset' = Vector2f (vx offset + (Re afterZoom - Re beforeZoom) * zoom')
                             (vy offset + (Im afterZoom - Im beforeZoom) * zoom')
      in (zoom', offset'))"

subsection \<open>The four formulas\<close>

definition formula1 :: "complex \<Rightarrow> complex \<Rightarrow> complex" where
  "formula1 z c =
     (let re2 = Re z * Re z - Im z * Im z;
          im2 = 2 * Re z * Im z
      in Complex \<bar>re2\<bar> im2 + c)"

definition formula2 :: "complex \<Rightarrow> complex \<Rightarrow> complex" where
  "formula2 z c =
     (let re2 = Re z * Re z - Im z * Im z;
          im2 = 2 * Re z * Im z
      in Complex \<bar>re2\<bar> \<bar>im2\<bar> + c)"

definition formula3 :: "complex \<Rightarrow> complex \<Rightarrow> complex" where
  "formula3 z c =
     (let re2 = Re z * Re z - Im z * Im z;
          im2 = 2 * Re z * Im z
      in Complex re2 (- im2) + c)"

definition formula4 :: "complex \<Rightarrow> complex \<Rightarrow> complex" where
  "formula4 z c =
     (let re_part = Re z * \<bar>Re z\<bar> + Im z * Im z;
          im_part = 2 * Re z * Im z
      in Complex \<bar>re_part\<bar> im_part + c)"

text \<open>The vector \<^verbatim>\<open>formulas\<close> of \<^verbatim>\<open>main\<close>, indexed by \<^verbatim>\<open>formulaIndex\<close> from 0.\<close>

definition formulas :: "(complex \<Rightarrow> complex \<Rightarrow> complex) list" where
  "formulas = [formula1, formula2, formula3, formula4]"

text \<open>
  The keys that switch the formula, lines 169--186: key \<open>n\<close> (top row or number pad)
  stores \<open>n - 1\<close> in \<^verbatim>\<open>formulaIndex\<close>; any other key leaves it alone.
\<close>

datatype Key = Num1 | Numpad1 | Num2 | Numpad2 | Num3 | Numpad3 | Num4 | Numpad4 | OtherKey

fun keyPressed :: "Key \<Rightarrow> nat \<Rightarrow> nat" where
  "keyPressed Num1 formulaIndex = 0"
| "keyPressed Numpad1 formulaIndex = 0"
| "keyPressed Num2 formulaIndex = 1"
| "keyPressed Numpad2 formulaIndex = 1"
| "keyPressed Num3 formulaIndex = 2"
| "keyPressed Numpad3 formulaIndex = 2"
| "keyPressed Num4 formulaIndex = 3"
| "keyPressed Numpad4 formulaIndex = 3"
| "keyPressed OtherKey formulaIndex = formulaIndex"

subsection \<open>The escape-time image\<close>

text \<open>
  The innermost loop of \<^verbatim>\<open>computeFractal\<close>, lines 83--87: \<^verbatim>\<open>iter\<close> counts from 0 and the
  loop is left either by \<^verbatim>\<open>break\<close>, before the increment, or when \<^verbatim>\<open>iter\<close> reaches the
  bound. The result is the value of \<^verbatim>\<open>iter\<close> after the loop. The bound is a parameter;
  the program passes \<^const>\<open>maxIter\<close>.
\<close>

function escapeLoop :: "nat \<Rightarrow> complex \<Rightarrow> nat \<Rightarrow> nat \<Rightarrow> complex \<Rightarrow> nat" where
  "escapeLoop formulaIndex cc bound iter z =
     (if iter < bound then
        (let z' = (formulas ! formulaIndex) z cc
         in if cmod z' > 2 then iter
            else escapeLoop formulaIndex cc bound (Suc iter) z')
      else iter)"
  by pat_completeness auto
termination
  by (relation "measure (\<lambda>(formulaIndex, cc, bound, iter, z). bound - iter)") auto

declare escapeLoop.simps [simp del]

text \<open>The body of the two pixel loops, lines 80--88: the count of one pixel and its grey level.\<close>

definition pixelIter :: "real \<Rightarrow> Vector2f \<Rightarrow> bool \<Rightarrow> complex \<Rightarrow> nat \<Rightarrow> nat \<Rightarrow> nat \<Rightarrow> nat" where
  "pixelIter zoom offset juliaMode juliaC formulaIndex px py =
     (let c = screenToComplex (int px) (int py) zoom offset width height;
          z = (if juliaMode then c else c);
          cc = (if juliaMode then juliaC else c)
      in escapeLoop formulaIndex cc maxIter 0 z)"

definition pixelColor :: "real \<Rightarrow> Vector2f \<Rightarrow> bool \<Rightarrow> complex \<Rightarrow> nat \<Rightarrow> nat \<Rightarrow> nat \<Rightarrow> nat" where
  "pixelColor zoom offset juliaMode juliaC formulaIndex px py =
     (255 * pixelIter zoom offset juliaMode juliaC formulaIndex px py div maxIter) mod 256"

text \<open>The image \<^verbatim>\<open>computeFractal\<close> writes: one column of grey levels for each \<^verbatim>\<open>px\<close>.\<close>

definition computeFractal :: "real \<Rightarrow> Vector2f \<Rightarrow> bool \<Rightarrow> complex \<Rightarrow> nat \<Rightarrow> nat list list" where
  "computeFractal zoom offset juliaMode juliaC formulaIndex =
     map (\<lambda>px. map (\<lambda>py. pixelColor zoom offset juliaMode juliaC formulaIndex px py)
                    [0 ..< nat height])
         [0 ..< nat width]"

subsection \<open>The orbit under the mouse\<close>

text \<open>
  The scan for a repetition, lines 234--239. \<^verbatim>\<open>found\<close> is false whenever the scan starts
  (the outer loop is left as soon as it is set), so the scan's result is the value of
  \<^verbatim>\<open>found\<close> after it. \<^verbatim>\<open>orbit[j]\<close> is read only for \<^verbatim>\<open>j < period\<close>, below the length of
  \<^verbatim>\<open>orbit\<close>.
\<close>

function scanOrbit :: "complex \<Rightarrow> complex list \<Rightarrow> nat \<Rightarrow> nat \<Rightarrow> bool" where
  "scanOrbit z orbit period j =
     (if j < period then
        (if cmod (z - orbit ! j) < 1 / 10000 then True
         else scanOrbit z orbit period (Suc j))
      else False)"
  by pat_completeness auto
termination
  by (relation "measure (\<lambda>(z, orbit, period, j). period - j)") auto

declare scanOrbit.simps [simp del]

text \<open>The locals \<^verbatim>\<open>period\<close>, \<^verbatim>\<open>orbit\<close> and \<^verbatim>\<open>found\<close> when the outer loop is left.\<close>

record OrbitExit =
  exitPeriod :: nat
  exitOrbit :: "complex list"
  exitFound :: bool

text \<open>
  The outer loop, lines 230--241. A \<^verbatim>\<open>break\<close> skips the increment of \<^verbatim>\<open>period\<close>. The
  bound is a parameter; the program passes \<^const>\<open>maxOrbit\<close>.
\<close>

function orbitLoop :: "nat \<Rightarrow> complex \<Rightarrow> nat \<Rightarrow> nat \<Rightarrow> complex \<Rightarrow> complex list \<Rightarrow> OrbitExit" where
  "orbitLoop formulaIndex cc bound period z orbit =
     (if period < bound then
        (let z' = (formulas ! formulaIndex) z cc;
             orbit' = orbit @ [z'];
             found = scanOrbit z' orbit' period 0
         in if found \<or> cmod z' > 2
            then \<lparr>exitPeriod = period, exitOrbit = orbit', exitFound = found\<rparr>
            else orbitLoop formulaIndex cc bound (Suc period) z' orbit')
      else \<lparr>exitPeriod = period, exitOrbit = orbit, exitFound = False\<rparr>)"
  by pat_completeness auto
termination
  by (relation "measure (\<lambda>(formulaIndex, cc, bound, period, z, orbit). bound - period)") auto

declare orbitLoop.simps [simp del]

text \<open>
  The loop started as the program starts it (\<^verbatim>\<open>period = 0\<close>, \<^verbatim>\<open>orbit\<close> empty), with the
  argument order of the specification's \<^verbatim>\<open>traceOrbit\<close>.
\<close>

definition traceOrbit :: "complex \<Rightarrow> complex \<Rightarrow> nat \<Rightarrow> nat \<Rightarrow> OrbitExit" where
  "traceOrbit seedZ cConst formulaIndex maxOrbitSteps =
     orbitLoop formulaIndex cConst maxOrbitSteps 0 seedZ []"

text \<open>
  The block of every frame, lines 213--244: \<^verbatim>\<open>mousePeriod\<close> and \<^verbatim>\<open>mouseOrbit\<close> for the
  pixel under the mouse, and \<open>-1\<close> and the empty orbit when the mouse is outside the window.
\<close>

definition orbitAtMouse :: "Vector2i \<Rightarrow> real \<Rightarrow> Vector2f \<Rightarrow> bool \<Rightarrow> complex \<Rightarrow> nat \<Rightarrow> int \<times> complex list" where
  "orbitAtMouse mouse zoom offset juliaMode juliaC formulaIndex =
     (if ix mouse \<ge> 0 \<and> ix mouse < width \<and> iy mouse \<ge> 0 \<and> iy mouse < height then
        (let c = screenToComplex (ix mouse) (iy mouse) zoom offset width height;
             z = c;
             cc = (if juliaMode then juliaC else c);
             r = orbitLoop formulaIndex cc maxOrbit 0 z []
         in (int (exitPeriod r), exitOrbit r))
      else (- 1, []))"

subsection \<open>The vocabulary of the specification\<close>

text \<open>
  The source prints and plays the number \<^verbatim>\<open>mousePeriod\<close> and has no value for the way the
  loop ended. The specification names three: \<open>PeriodFound\<close> at the step where the scan
  matched, \<open>Escaped\<close> where the loop was left because the magnitude passed 2, and
  \<open>Exhausted\<close> where the bound was reached. They are read off the loop's exit here:
  \<^verbatim>\<open>found\<close> is set exactly by a match, and the loop is left below the bound exactly by a
  \<^verbatim>\<open>break\<close>.
\<close>

datatype Classification = Escaped | PeriodFound nat | Exhausted

definition classify :: "nat \<Rightarrow> OrbitExit \<Rightarrow> Classification" where
  "classify maxOrbitSteps r =
     (if exitFound r then PeriodFound (exitPeriod r)
      else if exitPeriod r < maxOrbitSteps then Escaped
      else Exhausted)"

text \<open>
  The \<open>n\<close>-th iterate of the chosen formula from a seed; the point the loops compute in
  their pass number \<open>k\<close> (counted from 0) is \<open>iterate formulaIndex cc z (Suc k)\<close>.
\<close>

definition iterate :: "nat \<Rightarrow> complex \<Rightarrow> complex \<Rightarrow> nat \<Rightarrow> complex" where
  "iterate formulaIndex cc z n = ((\<lambda>w. (formulas ! formulaIndex) w cc) ^^ n) z"

text \<open>
  Step \<open>k\<close> of a sequence of points recurs when the point lies within the tolerance of an
  earlier one, and stops the orbit loop when it recurs or its magnitude exceeds 2.
\<close>

definition recursAt :: "(nat \<Rightarrow> complex) \<Rightarrow> nat \<Rightarrow> bool" where
  "recursAt pt k \<longleftrightarrow> (\<exists>j<k. cmod (pt k - pt j) < 1 / 10000)"

definition stopsAt :: "(nat \<Rightarrow> complex) \<Rightarrow> nat \<Rightarrow> bool" where
  "stopsAt pt k \<longleftrightarrow> recursAt pt k \<or> cmod (pt k) > 2"

section \<open>The same program on values that can be infinite or NaN\<close>

text \<open>
  A \<^verbatim>\<open>float\<close> is a finite number, one of the two infinities, or NaN. The second embedding
  below transcribes the same source lines over such values, to say what the loops do once
  an iterate is no longer finite. Its arithmetic is that of IEEE 754 on infinities and NaN:
  NaN propagates, the difference of equal infinities and the product of zero and an
  infinity are NaN, and every ordered comparison with NaN is false. A finite result beyond
  \<^verbatim>\<open>FLT_MAX\<close> overflows to the infinity of its sign. The rounding of results within range,
  underflow and the sign of zero are not modelled: a finite value is a real number.
\<close>

datatype float = Fin real | PInf | NInf | NaN

text \<open>\<^verbatim>\<open>FLT_MAX\<close>, the largest finite binary32 value, and overflow beyond it.\<close>

definition FLT_MAX :: real where
  "FLT_MAX = (2 ^ 24 - 1) * 2 ^ 104"

definition overflow :: "real \<Rightarrow> float" where
  "overflow x = (if x > FLT_MAX then PInf else if x < - FLT_MAX then NInf else Fin x)"

text \<open>Negation, absolute value, sum, difference, product, quotient and the comparison \<open><\<close>.\<close>

fun fneg :: "float \<Rightarrow> float" where
  "fneg (Fin a) = Fin (- a)"
| "fneg PInf = NInf"
| "fneg NInf = PInf"
| "fneg NaN = NaN"

fun fabs :: "float \<Rightarrow> float" where
  "fabs (Fin a) = Fin \<bar>a\<bar>"
| "fabs PInf = PInf"
| "fabs NInf = PInf"
| "fabs NaN = NaN"

fun fadd :: "float \<Rightarrow> float \<Rightarrow> float" where
  "fadd NaN _ = NaN"
| "fadd _ NaN = NaN"
| "fadd PInf NInf = NaN"
| "fadd NInf PInf = NaN"
| "fadd PInf _ = PInf"
| "fadd _ PInf = PInf"
| "fadd NInf _ = NInf"
| "fadd _ NInf = NInf"
| "fadd (Fin a) (Fin b) = overflow (a + b)"

definition fsub :: "float \<Rightarrow> float \<Rightarrow> float" where
  "fsub x y = fadd x (fneg y)"

fun fmul :: "float \<Rightarrow> float \<Rightarrow> float" where
  "fmul NaN _ = NaN"
| "fmul _ NaN = NaN"
| "fmul (Fin a) (Fin b) = overflow (a * b)"
| "fmul (Fin a) PInf = (if a = 0 then NaN else if a > 0 then PInf else NInf)"
| "fmul (Fin a) NInf = (if a = 0 then NaN else if a > 0 then NInf else PInf)"
| "fmul PInf (Fin b) = (if b = 0 then NaN else if b > 0 then PInf else NInf)"
| "fmul NInf (Fin b) = (if b = 0 then NaN else if b > 0 then NInf else PInf)"
| "fmul PInf PInf = PInf"
| "fmul PInf NInf = NInf"
| "fmul NInf PInf = NInf"
| "fmul NInf NInf = PInf"


fun fless :: "float \<Rightarrow> float \<Rightarrow> bool" where
  "fless NaN _ = False"
| "fless _ NaN = False"
| "fless PInf _ = False"
| "fless _ NInf = False"
| "fless NInf _ = True"
| "fless _ PInf = True"
| "fless (Fin a) (Fin b) = (a < b)"

text \<open>
  \<^verbatim>\<open>std::abs\<close> of a complex number is \<^verbatim>\<open>hypot\<close> of its parts: infinite as soon as one part
  is infinite, even when the other is NaN (C, Annex F), and NaN when a part is NaN and none
  is infinite.
\<close>

fun hypot :: "float \<Rightarrow> float \<Rightarrow> float" where
  "hypot PInf _ = PInf"
| "hypot NInf _ = PInf"
| "hypot _ PInf = PInf"
| "hypot _ NInf = PInf"
| "hypot NaN _ = NaN"
| "hypot _ NaN = NaN"
| "hypot (Fin a) (Fin b) = overflow (sqrt (a\<^sup>2 + b\<^sup>2))"

fun isFin :: "float \<Rightarrow> bool" where
  "isFin (Fin a) = True"
| "isFin PInf = False"
| "isFin NInf = False"
| "isFin NaN = False"

fun isInf :: "float \<Rightarrow> bool" where
  "isInf (Fin a) = False"
| "isInf PInf = True"
| "isInf NInf = True"
| "isInf NaN = False"

text \<open>\<^verbatim>\<open>std::complex<float>\<close> with its sum and difference, by parts, and its magnitude.\<close>

datatype cfloat = Cfloat (creal: float) (cimag: float)

definition cadd :: "cfloat \<Rightarrow> cfloat \<Rightarrow> cfloat" where
  "cadd z c = Cfloat (fadd (creal z) (creal c)) (fadd (cimag z) (cimag c))"

definition csub :: "cfloat \<Rightarrow> cfloat \<Rightarrow> cfloat" where
  "csub z c = Cfloat (fsub (creal z) (creal c)) (fsub (cimag z) (cimag c))"

definition cabs :: "cfloat \<Rightarrow> float" where
  "cabs z = hypot (creal z) (cimag z)"

definition isFinite :: "cfloat \<Rightarrow> bool" where
  "isFinite z \<longleftrightarrow> isFin (creal z) \<and> isFin (cimag z)"

definition hasInf :: "cfloat \<Rightarrow> bool" where
  "hasInf z \<longleftrightarrow> isInf (creal z) \<or> isInf (cimag z)"


text \<open>The four formulas, lines 30--53, and the vector \<^verbatim>\<open>formulas\<close>.\<close>

definition formula1F :: "cfloat \<Rightarrow> cfloat \<Rightarrow> cfloat" where
  "formula1F z c =
     (let re2 = fsub (fmul (creal z) (creal z)) (fmul (cimag z) (cimag z));
          im2 = fmul (fmul (Fin 2) (creal z)) (cimag z)
      in cadd (Cfloat (fabs re2) im2) c)"

definition formula2F :: "cfloat \<Rightarrow> cfloat \<Rightarrow> cfloat" where
  "formula2F z c =
     (let re2 = fsub (fmul (creal z) (creal z)) (fmul (cimag z) (cimag z));
          im2 = fmul (fmul (Fin 2) (creal z)) (cimag z)
      in cadd (Cfloat (fabs re2) (fabs im2)) c)"

definition formula3F :: "cfloat \<Rightarrow> cfloat \<Rightarrow> cfloat" where
  "formula3F z c =
     (let re2 = fsub (fmul (creal z) (creal z)) (fmul (cimag z) (cimag z));
          im2 = fmul (fmul (Fin 2) (creal z)) (cimag z)
      in cadd (Cfloat re2 (fneg im2)) c)"

definition formula4F :: "cfloat \<Rightarrow> cfloat \<Rightarrow> cfloat" where
  "formula4F z c =
     (let re_part = fadd (fmul (creal z) (fabs (creal z))) (fmul (cimag z) (cimag z));
          im_part = fmul (fmul (Fin 2) (creal z)) (cimag z)
      in cadd (Cfloat (fabs re_part) im_part) c)"

definition formulasF :: "(cfloat \<Rightarrow> cfloat \<Rightarrow> cfloat) list" where
  "formulasF = [formula1F, formula2F, formula3F, formula4F]"



text \<open>
  The two tests of the loops: \<^verbatim>\<open>std::abs(z) > 2.0f\<close> (lines 86 and 240) and
  \<^verbatim>\<open>std::abs(z - orbit[j]) < 1e-4\<close> (line 235).
\<close>

definition escapedF :: "cfloat \<Rightarrow> bool" where
  "escapedF z \<longleftrightarrow> fless (Fin 2) (cabs z)"

definition nearF :: "cfloat \<Rightarrow> cfloat \<Rightarrow> bool" where
  "nearF z p \<longleftrightarrow> fless (cabs (csub z p)) (Fin (1 / 10000))"

text \<open>The pixel loop, lines 83--87, and the count of one pixel, lines 80--88.\<close>

function escapeLoopF :: "nat \<Rightarrow> cfloat \<Rightarrow> nat \<Rightarrow> nat \<Rightarrow> cfloat \<Rightarrow> nat" where
  "escapeLoopF formulaIndex cc bound iter z =
     (if iter < bound then
        (let z' = (formulasF ! formulaIndex) z cc
         in if escapedF z' then iter
            else escapeLoopF formulaIndex cc bound (Suc iter) z')
      else iter)"
  by pat_completeness auto
termination
  by (relation "measure (\<lambda>(formulaIndex, cc, bound, iter, z). bound - iter)") auto

declare escapeLoopF.simps [simp del]


text \<open>The scan and the orbit loop, lines 230--241, with the locals when the loop is left.\<close>

function scanOrbitF :: "cfloat \<Rightarrow> cfloat list \<Rightarrow> nat \<Rightarrow> nat \<Rightarrow> bool" where
  "scanOrbitF z orbit period j =
     (if j < period then
        (if nearF z (orbit ! j) then True
         else scanOrbitF z orbit period (Suc j))
      else False)"
  by pat_completeness auto
termination
  by (relation "measure (\<lambda>(z, orbit, period, j). period - j)") auto

declare scanOrbitF.simps [simp del]

record OrbitExitF =
  exitPeriodF :: nat
  exitOrbitF :: "cfloat list"
  exitFoundF :: bool

function orbitLoopF :: "nat \<Rightarrow> cfloat \<Rightarrow> nat \<Rightarrow> nat \<Rightarrow> cfloat \<Rightarrow> cfloat list \<Rightarrow> OrbitExitF" where
  "orbitLoopF formulaIndex cc bound period z orbit =
     (if period < bound then
        (let z' = (formulasF ! formulaIndex) z cc;
             orbit' = orbit @ [z'];
             found = scanOrbitF z' orbit' period 0
         in if found \<or> escapedF z'
            then \<lparr>exitPeriodF = period, exitOrbitF = orbit', exitFoundF = found\<rparr>
            else orbitLoopF formulaIndex cc bound (Suc period) z' orbit')
      else \<lparr>exitPeriodF = period, exitOrbitF = orbit, exitFoundF = False\<rparr>)"
  by pat_completeness auto
termination
  by (relation "measure (\<lambda>(formulaIndex, cc, bound, period, z, orbit). bound - period)") auto

declare orbitLoopF.simps [simp del]


text \<open>The \<open>n\<close>-th iterate of the chosen formula, and a point of the plane as a pair of floats.\<close>

definition iterateF :: "nat \<Rightarrow> cfloat \<Rightarrow> cfloat \<Rightarrow> nat \<Rightarrow> cfloat" where
  "iterateF formulaIndex cc z n = ((\<lambda>w. (formulasF ! formulaIndex) w cc) ^^ n) z"

definition toF :: "complex \<Rightarrow> cfloat" where
  "toF z = Cfloat (Fin (Re z)) (Fin (Im z))"

section \<open>Auxiliary facts\<close>

subsection \<open>Magnitudes without square roots\<close>

lemma cmod_less_iff: "0 < r \<Longrightarrow> cmod z < r \<longleftrightarrow> (Re z)\<^sup>2 + (Im z)\<^sup>2 < r\<^sup>2"
proof -
  assume r: "0 < r"
  have "cmod z < r \<longleftrightarrow> (cmod z)\<^sup>2 < r\<^sup>2"
  proof
    assume "cmod z < r"
    then show "(cmod z)\<^sup>2 < r\<^sup>2"
      by (rule power_strict_mono) simp_all
  next
    assume "(cmod z)\<^sup>2 < r\<^sup>2"
    then show "cmod z < r"
      using r by (rule_tac power2_less_imp_less) simp_all
  qed
  then show ?thesis by (simp only: cmod_power2)
qed

lemma cmod_gt_iff: "0 \<le> r \<Longrightarrow> r < cmod z \<longleftrightarrow> r\<^sup>2 < (Re z)\<^sup>2 + (Im z)\<^sup>2"
proof -
  assume r: "0 \<le> r"
  have "r < cmod z \<longleftrightarrow> r\<^sup>2 < (cmod z)\<^sup>2"
  proof
    assume "r < cmod z"
    then show "r\<^sup>2 < (cmod z)\<^sup>2"
      using r by (rule_tac power_strict_mono) simp_all
  next
    assume "r\<^sup>2 < (cmod z)\<^sup>2"
    then show "r < cmod z"
      by (rule power2_less_imp_less) simp_all
  qed
  then show ?thesis by (simp only: cmod_power2)
qed

lemma cmod_gt_2_iff: "2 < cmod z \<longleftrightarrow> 4 < (Re z)\<^sup>2 + (Im z)\<^sup>2"
  using cmod_gt_iff [of 2 z] by simp

lemma cmod_lt_tol_iff: "cmod z * 10000 < 1 \<longleftrightarrow> ((Re z)\<^sup>2 + (Im z)\<^sup>2) * 100000000 < 1"
  using cmod_less_iff [of "1 / 10000" z] by (simp add: power2_eq_square)

subsection \<open>One pass of each loop\<close>

lemma scanOrbit_end: "\<not> j < period \<Longrightarrow> scanOrbit z orbit period j = False"
  by (subst scanOrbit.simps) simp

lemma scanOrbit_hit:
  "j < period \<Longrightarrow> cmod (z - orbit ! j) < 1 / 10000 \<Longrightarrow> scanOrbit z orbit period j = True"
  by (subst scanOrbit.simps) simp

lemma scanOrbit_miss:
  "j < period \<Longrightarrow> \<not> cmod (z - orbit ! j) < 1 / 10000 \<Longrightarrow>
   scanOrbit z orbit period j = scanOrbit z orbit period (Suc j)"
  by (subst scanOrbit.simps) simp

lemma orbitLoop_end:
  "\<not> period < bound \<Longrightarrow>
   orbitLoop formulaIndex cc bound period z orbit =
     \<lparr>exitPeriod = period, exitOrbit = orbit, exitFound = False\<rparr>"
  by (subst orbitLoop.simps) simp

lemma orbitLoop_break:
  "period < bound \<Longrightarrow>
   scanOrbit ((formulas ! formulaIndex) z cc) (orbit @ [(formulas ! formulaIndex) z cc]) period 0
     \<or> cmod ((formulas ! formulaIndex) z cc) > 2 \<Longrightarrow>
   orbitLoop formulaIndex cc bound period z orbit =
     \<lparr>exitPeriod = period, exitOrbit = orbit @ [(formulas ! formulaIndex) z cc],
      exitFound = scanOrbit ((formulas ! formulaIndex) z cc)
                    (orbit @ [(formulas ! formulaIndex) z cc]) period 0\<rparr>"
  by (subst orbitLoop.simps) (simp add: Let_def)

lemma orbitLoop_continue:
  "period < bound \<Longrightarrow>
   \<not> scanOrbit ((formulas ! formulaIndex) z cc) (orbit @ [(formulas ! formulaIndex) z cc]) period 0 \<Longrightarrow>
   \<not> cmod ((formulas ! formulaIndex) z cc) > 2 \<Longrightarrow>
   orbitLoop formulaIndex cc bound period z orbit =
     orbitLoop formulaIndex cc bound (Suc period) ((formulas ! formulaIndex) z cc)
       (orbit @ [(formulas ! formulaIndex) z cc])"
  by (subst orbitLoop.simps) (simp add: Let_def)

lemma escapeLoop_end: "\<not> iter < bound \<Longrightarrow> escapeLoop formulaIndex cc bound iter z = iter"
  by (subst escapeLoop.simps) simp

lemma escapeLoop_break:
  "iter < bound \<Longrightarrow> cmod ((formulas ! formulaIndex) z cc) > 2 \<Longrightarrow>
   escapeLoop formulaIndex cc bound iter z = iter"
  by (subst escapeLoop.simps) (simp add: Let_def)

lemma escapeLoop_continue:
  "iter < bound \<Longrightarrow> \<not> cmod ((formulas ! formulaIndex) z cc) > 2 \<Longrightarrow>
   escapeLoop formulaIndex cc bound iter z =
     escapeLoop formulaIndex cc bound (Suc iter) ((formulas ! formulaIndex) z cc)"
  by (subst escapeLoop.simps) (simp add: Let_def)

text \<open>The facts that evaluate the loops on concrete numbers.\<close>

lemmas loop_eval =
  scanOrbit_end scanOrbit_hit scanOrbit_miss orbitLoop_end orbitLoop_break orbitLoop_continue
  escapeLoop_end escapeLoop_break escapeLoop_continue
  traceOrbit_def formulas_def formula1_def formula2_def formula3_def formula4_def
  Let_def cmod_gt_2_iff cmod_lt_tol_iff complex_eq_iff power2_eq_square

subsection \<open>The loops compute the iterates of the formula\<close>

lemma iterate_0: "iterate formulaIndex cc z 0 = z"
  by (simp add: iterate_def)

lemma iterate_Suc:
  "iterate formulaIndex cc z (Suc n) = (formulas ! formulaIndex) (iterate formulaIndex cc z n) cc"
  by (simp add: iterate_def)

lemma scanOrbit_iff:
  "scanOrbit z orbit period j \<longleftrightarrow> (\<exists>i. j \<le> i \<and> i < period \<and> cmod (z - orbit ! i) < 1 / 10000)"
proof (induction z orbit period j rule: scanOrbit.induct)
  case (1 z orbit period j)
  show ?case
  proof (cases "j < period")
    case False
    then show ?thesis by (auto simp: scanOrbit_end)
  next
    case True
    show ?thesis
    proof (cases "cmod (z - orbit ! j) < 1 / 10000")
      case hit: True
      with True show ?thesis by (auto simp: scanOrbit_hit)
    next
      case miss: False
      have "scanOrbit z orbit period j = scanOrbit z orbit period (Suc j)"
        using True miss by (rule scanOrbit_miss)
      also have "\<dots> \<longleftrightarrow> (\<exists>i. Suc j \<le> i \<and> i < period \<and> cmod (z - orbit ! i) < 1 / 10000)"
        using "1.IH" True miss by simp
      also have "\<dots> \<longleftrightarrow> (\<exists>i. j \<le> i \<and> i < period \<and> cmod (z - orbit ! i) < 1 / 10000)"
        using miss by (metis Suc_leD Suc_leI le_neq_implies_less)
      finally show ?thesis .
    qed
  qed
qed

lemma scanOrbit_prefix:
  assumes "orbit = map pt [0..<period]"
  shows "scanOrbit (pt period) (orbit @ [pt period]) period 0 \<longleftrightarrow> recursAt pt period"
proof -
  have "(orbit @ [pt period]) ! i = pt i" if "i < period" for i
    using that assms by (simp add: nth_append)
  then show ?thesis
    unfolding scanOrbit_iff recursAt_def by auto
qed

text \<open>
  The orbit loop, entered at \<open>period\<close> with the first \<open>period\<close> points in \<open>orbit\<close>, is left
  at the first step from \<open>period\<close> on that stops it, or at the bound.
\<close>

lemma orbitLoop_spec:
  fixes formulaIndex :: nat and cc z0 :: complex
  defines "pt \<equiv> \<lambda>i. iterate formulaIndex cc z0 (Suc i)"
  assumes "period \<le> bound"
    and "z = iterate formulaIndex cc z0 period"
    and "orbit = map pt [0..<period]"
    and "r = orbitLoop formulaIndex cc bound period z orbit"
  shows "period \<le> exitPeriod r \<and> exitPeriod r \<le> bound
    \<and> exitOrbit r = map pt [0..<(if exitPeriod r < bound then Suc (exitPeriod r) else bound)]
    \<and> (\<forall>i. period \<le> i \<and> i < exitPeriod r \<longrightarrow> \<not> stopsAt pt i)
    \<and> (exitPeriod r < bound \<longrightarrow> stopsAt pt (exitPeriod r))
    \<and> exitFound r = (exitPeriod r < bound \<and> recursAt pt (exitPeriod r))"
  using assms(2-)
proof (induction "bound - period" arbitrary: period z orbit)
  case 0
  then have "\<not> period < bound" by simp
  then have "r = \<lparr>exitPeriod = period, exitOrbit = orbit, exitFound = False\<rparr>"
    using "0.prems" by (simp add: orbitLoop_end)
  then show ?case using 0 by auto
next
  case (Suc n)
  then have lt: "period < bound" by simp
  let ?z' = "(formulas ! formulaIndex) z cc"
  have z': "?z' = pt period"
    using Suc.prems by (simp add: pt_def iterate_Suc)
  have scan: "scanOrbit ?z' (orbit @ [?z']) period 0 \<longleftrightarrow> recursAt pt period"
    unfolding z' using Suc.prems(3) by (rule scanOrbit_prefix)
  have orbit': "orbit @ [?z'] = map pt [0..<Suc period]"
    using Suc.prems(3) z' by simp
  show ?case
  proof (cases "stopsAt pt period")
    case True
    then have "scanOrbit ?z' (orbit @ [?z']) period 0 \<or> cmod ?z' > 2"
      using scan z' by (simp add: stopsAt_def)
    then have "r = \<lparr>exitPeriod = period, exitOrbit = orbit @ [?z'],
        exitFound = scanOrbit ?z' (orbit @ [?z']) period 0\<rparr>"
      using Suc.prems(4) lt by (simp add: orbitLoop_break)
    then show ?thesis
      using True lt scan orbit' by auto
  next
    case False
    then have "\<not> scanOrbit ?z' (orbit @ [?z']) period 0" "\<not> cmod ?z' > 2"
      using scan z' by (simp_all add: stopsAt_def)
    then have r: "r = orbitLoop formulaIndex cc bound (Suc period) ?z' (orbit @ [?z'])"
      using Suc.prems(4) lt by (simp add: orbitLoop_continue)
    have "n = bound - Suc period" using Suc.hyps(2) by simp
    moreover have "Suc period \<le> bound" using lt by simp
    moreover have "?z' = iterate formulaIndex cc z0 (Suc period)"
      using z' by (simp add: pt_def)
    ultimately have IH: "Suc period \<le> exitPeriod r \<and> exitPeriod r \<le> bound
      \<and> exitOrbit r = map pt [0..<(if exitPeriod r < bound then Suc (exitPeriod r) else bound)]
      \<and> (\<forall>i. Suc period \<le> i \<and> i < exitPeriod r \<longrightarrow> \<not> stopsAt pt i)
      \<and> (exitPeriod r < bound \<longrightarrow> stopsAt pt (exitPeriod r))
      \<and> exitFound r = (exitPeriod r < bound \<and> recursAt pt (exitPeriod r))"
      using Suc.hyps(1) [of "Suc period" ?z' "orbit @ [?z']"] orbit' r by blast
    have "\<not> stopsAt pt i" if "period \<le> i" "i < exitPeriod r" for i
    proof (cases "i = period")
      case True
      then show ?thesis using False by simp
    next
      case ne: False
      then have "Suc period \<le> i" using that by simp
      then show ?thesis using IH that by blast
    qed
    then show ?thesis using IH by auto
  qed
qed

text \<open>The same for the loop as the program starts it.\<close>

lemma traceOrbit_spec:
  fixes formulaIndex bound :: nat and cConst seedZ :: complex
  defines "pt \<equiv> \<lambda>i. iterate formulaIndex cConst seedZ (Suc i)"
  defines "r \<equiv> traceOrbit seedZ cConst formulaIndex bound"
  shows "exitPeriod r \<le> bound"
    and "exitOrbit r = map pt [0..<(if exitPeriod r < bound then Suc (exitPeriod r) else bound)]"
    and "i < exitPeriod r \<Longrightarrow> \<not> stopsAt pt i"
    and "exitPeriod r < bound \<Longrightarrow> stopsAt pt (exitPeriod r)"
    and "exitFound r = (exitPeriod r < bound \<and> recursAt pt (exitPeriod r))"
  using orbitLoop_spec [of 0 bound seedZ formulaIndex cConst seedZ "[]" r]
  by (simp_all add: pt_def r_def traceOrbit_def iterate_0)

text \<open>
  The pixel loop is left at the first pass whose point has magnitude above 2, or at the bound.
\<close>

lemma escapeLoop_spec:
  fixes formulaIndex :: nat and cc z0 :: complex
  defines "pt \<equiv> \<lambda>i. iterate formulaIndex cc z0 (Suc i)"
  assumes "iter \<le> bound"
    and "z = iterate formulaIndex cc z0 iter"
    and "r = escapeLoop formulaIndex cc bound iter z"
  shows "iter \<le> r \<and> r \<le> bound
    \<and> (\<forall>i. iter \<le> i \<and> i < r \<longrightarrow> cmod (pt i) \<le> 2)
    \<and> (r < bound \<longrightarrow> cmod (pt r) > 2)"
  using assms(2-)
proof (induction "bound - iter" arbitrary: iter z)
  case 0
  then show ?case by (simp add: escapeLoop_end)
next
  case (Suc n)
  then have lt: "iter < bound" by simp
  let ?z' = "(formulas ! formulaIndex) z cc"
  have z': "?z' = pt iter"
    using Suc.prems by (simp add: pt_def iterate_Suc)
  show ?case
  proof (cases "cmod ?z' > 2")
    case True
    then have "r = iter" using Suc.prems lt by (simp add: escapeLoop_break)
    then show ?thesis using True lt z' by auto
  next
    case False
    then have r: "r = escapeLoop formulaIndex cc bound (Suc iter) ?z'"
      using Suc.prems lt by (simp add: escapeLoop_continue)
    have "n = bound - Suc iter" using Suc.hyps(2) by simp
    moreover have "Suc iter \<le> bound" using lt by simp
    moreover have "?z' = iterate formulaIndex cc z0 (Suc iter)"
      using z' by (simp add: pt_def)
    ultimately have IH: "Suc iter \<le> r \<and> r \<le> bound
      \<and> (\<forall>i. Suc iter \<le> i \<and> i < r \<longrightarrow> cmod (pt i) \<le> 2)
      \<and> (r < bound \<longrightarrow> cmod (pt r) > 2)"
      using Suc.hyps(1) [of "Suc iter" ?z'] r by blast
    have "cmod (pt i) \<le> 2" if "iter \<le> i" "i < r" for i
    proof (cases "i = iter")
      case True
      then show ?thesis using False z' by simp
    next
      case ne: False
      then have "Suc iter \<le> i" using that by simp
      then show ?thesis using IH that by blast
    qed
    then show ?thesis using IH by auto
  qed
qed

section \<open>The viewport mapper\<close>

text \<open>
  Claim C7. For every grid coordinate \<open>(gx, gy)\<close> and every viewport with \<open>zoom > 0\<close>,
  \<^verbatim>\<open>screenToComplex\<close> returns the complex number whose real part is
  \<open>(gx + offset.x - W/2) / zoom\<close> and whose imaginary part is \<open>(gy + offset.y - H/2) / zoom\<close>;
  it is a function of its six arguments and of nothing else.
\<close>

theorem screenToComplex_formula:
  "zoom > 0 \<Longrightarrow>
   Re (screenToComplex gx gy zoom offset w h) = (of_int gx + vx offset - of_int w / 2) / zoom \<and>
   Im (screenToComplex gx gy zoom offset w h) = (of_int gy + vy offset - of_int h / 2) / zoom"
  by (simp add: screenToComplex_def)

text \<open>The pixel (500, 300) of the 800 by 600 window at the initial zoom 250 is the point 0.4.\<close>

theorem screenToComplex_formula_witness:
  "(250::real) > 0 \<and>
   Re (screenToComplex 500 300 250 (Vector2f 0 0) width height) = 2 / 5 \<and>
   Im (screenToComplex 500 300 250 (Vector2f 0 0) width height) = 0"
  using screenToComplex_formula [of 250 500 300 "Vector2f 0 0" width height]
  by (simp add: width_def height_def)

text \<open>
  Claim C9. For every grid coordinate and every viewport with \<open>zoom > 0\<close>, mapping the
  coordinate to the plane with \<^verbatim>\<open>screenToComplex\<close> and back with the transform the program
  draws orbit points with, \<open>x = re * zoom + W/2 - offset.x\<close> and
  \<open>y = im * zoom + H/2 - offset.y\<close>, gives the coordinate again, exactly.
\<close>

theorem complexToScreen_screenToComplex:
  "zoom > 0 \<Longrightarrow>
   complexToScreen (screenToComplex gx gy zoom offset w h) zoom offset w h =
     Vector2f (of_int gx) (of_int gy)"
  by (simp add: complexToScreen_def screenToComplex_def)

text \<open>Pixel (500, 120) at zoom 300 and offset (-20, 7) goes to 4/15 - (173/300) i and back.\<close>

theorem complexToScreen_screenToComplex_witness:
  "(300::real) > 0 \<and>
   screenToComplex 500 120 300 (Vector2f (- 20) 7) width height = Complex (4 / 15) (- 173 / 300) \<and>
   complexToScreen (Complex (4 / 15) (- 173 / 300)) 300 (Vector2f (- 20) 7) width height =
     Vector2f 500 120"
  using complexToScreen_screenToComplex [of 300 500 120 "Vector2f (- 20) 7" width height]
  by (simp add: screenToComplex_def width_def height_def)

subsection \<open>Zooming with the mouse wheel\<close>

text \<open>
  What one wheel event does to the point under the mouse: with \<open>before\<close> and \<open>after\<close> the
  two values the handler computes, the point shown under the mouse after the event is
  \<open>2 * after - before\<close>. The handler adds \<open>(after - before) * zoom\<close> to the offset; it is
  \<open>(before - after) * zoom\<close> that would bring the point back to \<open>before\<close>.
\<close>

lemma mouseWheelScrolled_point:
  fixes zoom delta :: real and mouse :: Vector2i and offset :: Vector2f
  assumes "zoom \<noteq> 0" and "delta \<noteq> 0"
  defines "view' \<equiv> mouseWheelScrolled delta mouse (zoom, offset)"
  defines "before \<equiv> screenToComplex (ix mouse) (iy mouse) zoom offset width height"
  defines "after \<equiv> screenToComplex (ix mouse) (iy mouse) (fst view') offset width height"
  shows "screenToComplex (ix mouse) (iy mouse) (fst view') (snd view') width height
           = 2 * after - before"
  using assms(1,2)
  by (simp add: view'_def before_def after_def mouseWheelScrolled_def screenToComplex_def Let_def
      zoomFactor_def complex_eq_iff field_simps)

text \<open>
  Claim C1 asks that the handler's recentring, adding \<open>(after - before) * newZoom\<close> to the
  offset, leaves the complex point under the mouse where it was. The handler's comment
  says the same (``Keep the point under the mouse stationary''). It does not hold: one
  notch of the wheel at the initial view (zoom 250, offset 0) with the mouse on pixel
  (500, 300) takes the zoom to 300 and the offset to (-20, 0), and the point under the
  mouse from 2/5 to 4/15, more than a tenth away.
\<close>

theorem mouseWheelScrolled_moves_point:
  "screenToComplex 500 300 250 (Vector2f 0 0) width height = Complex (2 / 5) 0 \<and>
   mouseWheelScrolled 1 (Vector2i 500 300) (250, Vector2f 0 0) = (300, Vector2f (- 20) 0) \<and>
   screenToComplex 500 300 300 (Vector2f (- 20) 0) width height = Complex (4 / 15) 0 \<and>
   cmod (Complex (4 / 15) 0 - Complex (2 / 5) 0) > 1 / 10"
proof -
  have "cmod (Complex (4 / 15) 0 - Complex (2 / 5) 0) > 1 / 10"
    using cmod_gt_iff [of "1 / 10" "Complex (4 / 15) 0 - Complex (2 / 5) 0"]
    by (simp add: power2_eq_square)
  then show ?thesis
    by (simp add: mouseWheelScrolled_def screenToComplex_def Let_def zoomFactor_def width_def
        height_def)
qed

section \<open>The formula registry\<close>

text \<open>
  Claim C3. The registry computes the four expressions of the specification. Formula \<open>n\<close>
  of the specification (the number the program prints, \<^verbatim>\<open>formulaIndex + 1\<close>) is entry
  \<open>n - 1\<close> of \<^verbatim>\<open>formulas\<close>. With \<open>z\<^sup>2\<close> the complex square, whose parts are
  \<open>re\<^sup>2 - im\<^sup>2\<close> and \<open>2 re im\<close>: formula 1 is \<open>(|re z\<^sup>2|, im z\<^sup>2) + c\<close>, formula 2 is
  \<open>(|re z\<^sup>2|, |im z\<^sup>2|) + c\<close>, formula 3 is \<open>(re z\<^sup>2, - im z\<^sup>2) + c\<close>, and formula 4 is
  \<open>(|re z |re z| + (im z)\<^sup>2|, 2 re z im z) + c\<close>.
\<close>

theorem formulas_evaluate:
  "length formulas = 4 \<and>
   (formulas ! 0) z c = Complex \<bar>Re (z\<^sup>2)\<bar> (Im (z\<^sup>2)) + c \<and>
   (formulas ! 1) z c = Complex \<bar>Re (z\<^sup>2)\<bar> \<bar>Im (z\<^sup>2)\<bar> + c \<and>
   (formulas ! 2) z c = Complex (Re (z\<^sup>2)) (- Im (z\<^sup>2)) + c \<and>
   (formulas ! 3) z c = Complex \<bar>Re z * \<bar>Re z\<bar> + (Im z)\<^sup>2\<bar> (2 * Re z * Im z) + c \<and>
   Re (z\<^sup>2) = (Re z)\<^sup>2 - (Im z)\<^sup>2 \<and> Im (z\<^sup>2) = 2 * Re z * Im z"
  by (simp add: formulas_def formula1_def formula2_def formula3_def formula4_def Let_def
      power2_eq_square mult.commute mult.left_commute)

text \<open>The keys 1 to 4 select the four entries, and every key leaves a valid index.\<close>

lemma keyPressed_valid:
  "formulaIndex < length formulas \<Longrightarrow> keyPressed key formulaIndex < length formulas"
  by (cases key) (simp_all add: formulas_def)

lemma keyPressed_formulas:
  "formulas ! keyPressed Num1 i = formula1" "formulas ! keyPressed Numpad1 i = formula1"
  "formulas ! keyPressed Num2 i = formula2" "formulas ! keyPressed Numpad2 i = formula2"
  "formulas ! keyPressed Num3 i = formula3" "formulas ! keyPressed Numpad3 i = formula3"
  "formulas ! keyPressed Num4 i = formula4" "formulas ! keyPressed Numpad4 i = formula4"
  by (simp_all add: formulas_def)

section \<open>The orbit detector\<close>

text \<open>
  Claim C4. If the orbit loop stops with \<open>PeriodFound\<close> at step \<open>k\<close> (counted from 0), then
  the point of step \<open>k\<close> lies within \<open>1e-4\<close> of a point visited at some step \<open>j < k\<close>, no
  earlier step had such a match (so \<open>k\<close> is the first step that recurs), and exactly
  \<open>k + 1\<close> points were visited. The visited points are the iterates of the formula, and
  none before step \<open>k\<close> has magnitude above 2.
\<close>

theorem traceOrbit_PeriodFound:
  fixes formulaIndex maxOrbitSteps k :: nat and seedZ cConst :: complex
  defines "r \<equiv> traceOrbit seedZ cConst formulaIndex maxOrbitSteps"
  defines "visited \<equiv> exitOrbit r"
  assumes "formulaIndex < length formulas"
    and "classify maxOrbitSteps r = PeriodFound k"
  shows "k < maxOrbitSteps \<and> exitPeriod r = k \<and> length visited = k + 1
    \<and> (\<forall>i\<le>k. visited ! i = iterate formulaIndex cConst seedZ (Suc i))
    \<and> (\<exists>j<k. cmod (visited ! k - visited ! j) < 1 / 10000)
    \<and> (\<forall>i<k. \<not> (\<exists>j<i. cmod (visited ! i - visited ! j) < 1 / 10000))
    \<and> (\<forall>i<k. cmod (visited ! i) \<le> 2)"
proof -
  let ?pt = "\<lambda>i. iterate formulaIndex cConst seedZ (Suc i)"
  note spec = traceOrbit_spec [where formulaIndex = formulaIndex and bound = maxOrbitSteps
      and cConst = cConst and seedZ = seedZ, folded r_def]
  from assms(4) have found: "exitFound r" and k: "exitPeriod r = k"
    by (auto simp: classify_def split: if_splits)
  from found spec(5) k have lt: "k < maxOrbitSteps" and rec: "recursAt ?pt k"
    by simp_all
  have vis: "visited = map ?pt [0..<Suc k]"
    using spec(2) k lt by (simp add: visited_def)
  then have nth: "visited ! i = ?pt i" if "i \<le> k" for i
    using that by (simp add: nth_append less_Suc_eq_le del: upt_Suc)
  have nostop: "\<not> stopsAt ?pt i" if "i < k" for i
    using spec(3) [of i] that k by simp
  have "\<exists>j<k. cmod (visited ! k - visited ! j) < 1 / 10000"
    using rec nth unfolding recursAt_def by auto
  moreover have "\<not> (\<exists>j<i. cmod (visited ! i - visited ! j) < 1 / 10000)" if "i < k" for i
    using nostop [OF that] nth that unfolding stopsAt_def recursAt_def by auto
  moreover have "cmod (visited ! i) \<le> 2" if "i < k" for i
    using nostop [OF that] nth that unfolding stopsAt_def by auto
  ultimately show ?thesis
    using lt k vis nth by simp
qed

text \<open>
  Formula 3 with seed and constant \<open>-1\<close> cycles with period 2: the visited points are
  \<open>0, -1, 0\<close> and the loop stops at step 2.
\<close>

theorem traceOrbit_PeriodFound_witness:
  "(2::nat) < length formulas
   \<and> classify maxOrbit (traceOrbit (- 1) (- 1) 2 maxOrbit) = PeriodFound 2
   \<and> exitOrbit (traceOrbit (- 1) (- 1) 2 maxOrbit) = [0, - 1, 0]
   \<and> length (exitOrbit (traceOrbit (- 1) (- 1) 2 maxOrbit)) = 2 + 1
   \<and> (\<exists>j<2. cmod (exitOrbit (traceOrbit (- 1) (- 1) 2 maxOrbit) ! 2
                    - exitOrbit (traceOrbit (- 1) (- 1) 2 maxOrbit) ! j) < 1 / 10000)"
proof -
  have run: "traceOrbit (- 1) (- 1) 2 maxOrbit
      = \<lparr>exitPeriod = 2, exitOrbit = [0, - 1, 0], exitFound = True\<rparr>"
    by (simp add: loop_eval maxOrbit_def)
  have len: "(2::nat) < length formulas"
    by (simp add: formulas_def)
  have cls: "classify maxOrbit (traceOrbit (- 1) (- 1) 2 maxOrbit) = PeriodFound 2"
    by (simp add: run classify_def)
  show ?thesis
    using traceOrbit_PeriodFound [OF len cls] len cls run by simp
qed

text \<open>
  Claim C6. If the orbit loop stops with \<open>Escaped\<close> at step \<open>k\<close>, then the point of step \<open>k\<close>
  has magnitude above 2, every point before it has magnitude at most 2, and no step up to
  and including \<open>k\<close> came within \<open>1e-4\<close> of an earlier point.
\<close>

theorem traceOrbit_Escaped:
  fixes formulaIndex maxOrbitSteps k :: nat and seedZ cConst :: complex
  defines "r \<equiv> traceOrbit seedZ cConst formulaIndex maxOrbitSteps"
  defines "visited \<equiv> exitOrbit r"
  assumes "formulaIndex < length formulas"
    and "classify maxOrbitSteps r = Escaped"
    and "exitPeriod r = k"
  shows "k < maxOrbitSteps \<and> length visited = k + 1
    \<and> (\<forall>i\<le>k. visited ! i = iterate formulaIndex cConst seedZ (Suc i))
    \<and> cmod (visited ! k) > 2
    \<and> (\<forall>i<k. cmod (visited ! i) \<le> 2)
    \<and> (\<forall>i\<le>k. \<not> (\<exists>j<i. cmod (visited ! i - visited ! j) < 1 / 10000))"
proof -
  let ?pt = "\<lambda>i. iterate formulaIndex cConst seedZ (Suc i)"
  note spec = traceOrbit_spec [where formulaIndex = formulaIndex and bound = maxOrbitSteps
      and cConst = cConst and seedZ = seedZ, folded r_def]
  note k = assms(5)
  from assms(4) have notfound: "\<not> exitFound r" and lt: "k < maxOrbitSteps"
    using k by (auto simp: classify_def split: if_splits)
  have norec: "\<not> recursAt ?pt k"
    using notfound spec(5) k lt by simp
  have stop: "stopsAt ?pt k"
    using spec(4) k lt by simp
  have vis: "visited = map ?pt [0..<Suc k]"
    using spec(2) k lt by (simp add: visited_def)
  then have nth: "visited ! i = ?pt i" if "i \<le> k" for i
    using that by (simp add: nth_append less_Suc_eq_le del: upt_Suc)
  have nostop: "\<not> stopsAt ?pt i" if "i < k" for i
    using spec(3) [of i] that k by simp
  have "cmod (visited ! k) > 2"
    using stop norec nth by (simp add: stopsAt_def)
  moreover have "cmod (visited ! i) \<le> 2" if "i < k" for i
    using nostop [OF that] nth that unfolding stopsAt_def by auto
  moreover have "\<not> (\<exists>j<i. cmod (visited ! i - visited ! j) < 1 / 10000)" if "i \<le> k" for i
  proof (cases "i = k")
    case True
    then show ?thesis using norec nth unfolding recursAt_def by auto
  next
    case False
    then have "i < k" using that by simp
    then show ?thesis
      using nostop [of i] nth unfolding stopsAt_def recursAt_def by auto
  qed
  ultimately show ?thesis
    using lt vis nth by simp
qed

text \<open>Formula 1 with seed and constant 1 visits 2 and then 5, and escapes at step 1.\<close>

theorem traceOrbit_Escaped_witness:
  "(0::nat) < length formulas
   \<and> classify maxOrbit (traceOrbit 1 1 0 maxOrbit) = Escaped
   \<and> exitPeriod (traceOrbit 1 1 0 maxOrbit) = 1
   \<and> exitOrbit (traceOrbit 1 1 0 maxOrbit) = [2, 5]
   \<and> cmod (exitOrbit (traceOrbit 1 1 0 maxOrbit) ! 1) > 2"
proof -
  have run: "traceOrbit 1 1 0 maxOrbit
      = \<lparr>exitPeriod = 1, exitOrbit = [2, 5], exitFound = False\<rparr>"
    by (simp add: loop_eval maxOrbit_def)
  have len: "(0::nat) < length formulas"
    by (simp add: formulas_def)
  have cls: "classify maxOrbit (traceOrbit 1 1 0 maxOrbit) = Escaped"
    unfolding run classify_def by (simp add: maxOrbit_def)
  have per: "exitPeriod (traceOrbit 1 1 0 maxOrbit) = 1"
    by (simp add: run)
  show ?thesis
    using traceOrbit_Escaped [OF len cls per] len cls run by simp
qed

text \<open>
  Claim C5. The orbit loop always ends, after at most \<^verbatim>\<open>maxOrbitSteps\<close> passes: the step
  count it leaves is at most the bound and so is the number of visited points, one for
  each pass made. (That it returns at all is the termination proof of \<^const>\<open>orbitLoop\<close>.)
  Its classification is exactly one of \<open>Escaped\<close>, \<open>PeriodFound\<close> and \<open>Exhausted\<close>:
  \<open>PeriodFound\<close> when the loop was left below the bound at a step that recurs, \<open>Escaped\<close>
  when it was left below the bound at a step that does not recur and has magnitude above
  2, \<open>Exhausted\<close> when the bound was reached.
\<close>

theorem traceOrbit_terminates:
  fixes formulaIndex maxOrbitSteps :: nat and seedZ cConst :: complex
  defines "r \<equiv> traceOrbit seedZ cConst formulaIndex maxOrbitSteps"
  defines "pt \<equiv> \<lambda>i. iterate formulaIndex cConst seedZ (Suc i)"
  assumes "formulaIndex < length formulas"
  shows "exitPeriod r \<le> maxOrbitSteps
    \<and> length (exitOrbit r) = (if exitPeriod r < maxOrbitSteps then Suc (exitPeriod r) else maxOrbitSteps)
    \<and> length (exitOrbit r) \<le> maxOrbitSteps
    \<and> classify maxOrbitSteps r \<in> {Escaped, PeriodFound (exitPeriod r), Exhausted}
    \<and> (classify maxOrbitSteps r = PeriodFound (exitPeriod r))
          = (exitPeriod r < maxOrbitSteps \<and> recursAt pt (exitPeriod r))
    \<and> (classify maxOrbitSteps r = Escaped)
          = (exitPeriod r < maxOrbitSteps \<and> \<not> recursAt pt (exitPeriod r) \<and> cmod (pt (exitPeriod r)) > 2)
    \<and> (classify maxOrbitSteps r = Exhausted) = (exitPeriod r = maxOrbitSteps)"
proof -
  note spec = traceOrbit_spec [where formulaIndex = formulaIndex and bound = maxOrbitSteps
      and cConst = cConst and seedZ = seedZ, folded r_def pt_def]
  have len: "length (exitOrbit r) = (if exitPeriod r < maxOrbitSteps then Suc (exitPeriod r) else maxOrbitSteps)"
    by (subst spec(2)) simp
  have esc: "cmod (pt (exitPeriod r)) > 2"
    if "exitPeriod r < maxOrbitSteps" "\<not> recursAt pt (exitPeriod r)"
    using spec(4) that by (simp add: stopsAt_def)
  show ?thesis
    using spec(1) spec(5) len esc by (auto simp: classify_def)
qed

text \<open>Formula 3 with seed and constant \<open>-1\<close> and a bound of 2 visits \<open>0, -1\<close> and is exhausted.\<close>

theorem traceOrbit_terminates_witness:
  "(2::nat) < length formulas
   \<and> traceOrbit (- 1) (- 1) 2 2 = \<lparr>exitPeriod = 2, exitOrbit = [0, - 1], exitFound = False\<rparr>
   \<and> exitPeriod (traceOrbit (- 1) (- 1) 2 2) \<le> 2
   \<and> length (exitOrbit (traceOrbit (- 1) (- 1) 2 2)) \<le> 2
   \<and> classify 2 (traceOrbit (- 1) (- 1) 2 2) = Exhausted"
proof -
  have run: "traceOrbit (- 1) (- 1) 2 2
      = \<lparr>exitPeriod = 2, exitOrbit = [0, - 1], exitFound = False\<rparr>"
    by (simp add: loop_eval)
  have len: "(2::nat) < length formulas"
    by (simp add: formulas_def)
  have per: "exitPeriod (traceOrbit (- 1) (- 1) 2 2) = 2"
    by (simp add: run)
  show ?thesis
    using traceOrbit_terminates [OF len, of "- 1" "- 1" 2] len run per by simp
qed

subsection \<open>What the program keeps of the orbit\<close>

text \<open>
  With the mouse inside the window, \<^verbatim>\<open>mousePeriod\<close> and \<^verbatim>\<open>mouseOrbit\<close> are the step count
  and the visited points of the loop run from the pixel under the mouse, with the bound
  1000.
\<close>

lemma orbitAtMouse_inside:
  assumes "0 \<le> ix mouse" "ix mouse < width" "0 \<le> iy mouse" "iy mouse < height"
  shows "orbitAtMouse mouse zoom offset juliaMode juliaC formulaIndex =
    (let c = screenToComplex (ix mouse) (iy mouse) zoom offset width height;
         r = traceOrbit c (if juliaMode then juliaC else c) formulaIndex maxOrbit
     in (int (exitPeriod r), exitOrbit r))"
  using assms by (simp add: orbitAtMouse_def traceOrbit_def Let_def)

lemma orbitAtMouse_range:
  assumes "0 \<le> ix mouse" "ix mouse < width" "0 \<le> iy mouse" "iy mouse < height"
  shows "0 \<le> fst (orbitAtMouse mouse zoom offset juliaMode juliaC formulaIndex)"
    and "fst (orbitAtMouse mouse zoom offset juliaMode juliaC formulaIndex) \<le> 1000"
proof -
  let ?c = "screenToComplex (ix mouse) (iy mouse) zoom offset width height"
  let ?r = "traceOrbit ?c (if juliaMode then juliaC else ?c) formulaIndex maxOrbit"
  have eq: "fst (orbitAtMouse mouse zoom offset juliaMode juliaC formulaIndex) = int (exitPeriod ?r)"
    using assms by (simp add: orbitAtMouse_inside Let_def)
  show "0 \<le> fst (orbitAtMouse mouse zoom offset juliaMode juliaC formulaIndex)"
    by (simp add: eq)
  have "exitPeriod ?r \<le> maxOrbit" by (rule traceOrbit_spec(1))
  then show "fst (orbitAtMouse mouse zoom offset juliaMode juliaC formulaIndex) \<le> 1000"
    by (simp add: eq maxOrbit_def)
qed

lemma orbitAtMouse_outside:
  "ix mouse < 0 \<or> width \<le> ix mouse \<or> iy mouse < 0 \<or> height \<le> iy mouse \<Longrightarrow>
   orbitAtMouse mouse zoom offset juliaMode juliaC formulaIndex = (- 1, [])"
  by (auto simp: orbitAtMouse_def)

text \<open>
  Claim C10 says that the step count is all the detector gives as a verdict, that it is
  the bound on exhaustion and \<open>k\<close> on an escape or a recurrence at step \<open>k\<close>, and concludes
  that none of the three classifications can be told from it. The last part fails for
  \<open>Exhausted\<close>: a \<^verbatim>\<open>break\<close> leaves the loop with \<^verbatim>\<open>period\<close> below the bound, so no run that
  is exhausted leaves the same count as a run that is not.
\<close>

theorem exhausted_distinguishable:
  "\<not> (\<exists>seedZ cConst formulaIndex seedZ' cConst' formulaIndex'.
        classify maxOrbit (traceOrbit seedZ cConst formulaIndex maxOrbit) = Exhausted
      \<and> classify maxOrbit (traceOrbit seedZ' cConst' formulaIndex' maxOrbit) \<noteq> Exhausted
      \<and> exitPeriod (traceOrbit seedZ cConst formulaIndex maxOrbit)
          = exitPeriod (traceOrbit seedZ' cConst' formulaIndex' maxOrbit))"
proof
  assume "\<exists>seedZ cConst formulaIndex seedZ' cConst' formulaIndex'.
        classify maxOrbit (traceOrbit seedZ cConst formulaIndex maxOrbit) = Exhausted
      \<and> classify maxOrbit (traceOrbit seedZ' cConst' formulaIndex' maxOrbit) \<noteq> Exhausted
      \<and> exitPeriod (traceOrbit seedZ cConst formulaIndex maxOrbit)
          = exitPeriod (traceOrbit seedZ' cConst' formulaIndex' maxOrbit)"
  then obtain seedZ cConst formulaIndex seedZ' cConst' formulaIndex'
    where ex: "classify maxOrbit (traceOrbit seedZ cConst formulaIndex maxOrbit) = Exhausted"
      and nex: "classify maxOrbit (traceOrbit seedZ' cConst' formulaIndex' maxOrbit) \<noteq> Exhausted"
      and eq: "exitPeriod (traceOrbit seedZ cConst formulaIndex maxOrbit)
          = exitPeriod (traceOrbit seedZ' cConst' formulaIndex' maxOrbit)"
    by blast
  from ex have "\<not> exitPeriod (traceOrbit seedZ cConst formulaIndex maxOrbit) < maxOrbit"
    by (auto simp: classify_def split: if_splits)
  moreover from nex have "exitPeriod (traceOrbit seedZ' cConst' formulaIndex' maxOrbit) < maxOrbit"
    using traceOrbit_spec(5) [where seedZ = seedZ' and cConst = cConst'
        and formulaIndex = formulaIndex' and bound = maxOrbit]
    by (auto simp: classify_def split: if_splits)
  ultimately show False using eq by simp
qed

text \<open>
  Claim C10, amended. The step count the orbit loop leaves lies between 0 and
  \<^verbatim>\<open>maxOrbitSteps\<close>. It is the bound exactly when the loop is exhausted, which happens when
  no step below the bound stops the loop. If \<open>k\<close> is the first step that stops the loop, the
  count is \<open>k\<close>, whether the step escapes or recurs: an escape and a recurrence at the same
  step leave the same count, as formula 1 from seed and constant 1 (escape at step 1) and
  from seed and constant 0 (recurrence at step 1) do. So the count separates \<open>Exhausted\<close>
  from the other two, and does not separate \<open>Escaped\<close> from \<open>PeriodFound\<close>.
\<close>

theorem traceOrbit_step_count:
  fixes formulaIndex maxOrbitSteps :: nat and seedZ cConst :: complex
  defines "r \<equiv> traceOrbit seedZ cConst formulaIndex maxOrbitSteps"
  defines "pt \<equiv> \<lambda>i. iterate formulaIndex cConst seedZ (Suc i)"
  assumes "formulaIndex < length formulas"
  shows "exitPeriod r \<le> maxOrbitSteps
    \<and> (classify maxOrbitSteps r = Exhausted) = (exitPeriod r = maxOrbitSteps)
    \<and> ((\<forall>i<maxOrbitSteps. \<not> stopsAt pt i) \<longrightarrow> exitPeriod r = maxOrbitSteps)
    \<and> (\<forall>k<maxOrbitSteps. (\<forall>i<k. \<not> stopsAt pt i) \<and> cmod (pt k) > 2 \<longrightarrow> exitPeriod r = k)
    \<and> (\<forall>k<maxOrbitSteps. (\<forall>i<k. \<not> stopsAt pt i) \<and> recursAt pt k \<longrightarrow> exitPeriod r = k)
    \<and> (\<forall>k. classify maxOrbitSteps r = PeriodFound k \<longrightarrow> exitPeriod r = k \<and> k < maxOrbitSteps)
    \<and> (classify maxOrbitSteps r = Escaped \<longrightarrow> exitPeriod r < maxOrbitSteps)
    \<and> classify maxOrbit (traceOrbit 1 1 0 maxOrbit) = Escaped
    \<and> classify maxOrbit (traceOrbit 0 0 0 maxOrbit) = PeriodFound 1
    \<and> exitPeriod (traceOrbit 1 1 0 maxOrbit) = exitPeriod (traceOrbit 0 0 0 maxOrbit)"
proof -
  note spec = traceOrbit_spec [where formulaIndex = formulaIndex and bound = maxOrbitSteps
      and cConst = cConst and seedZ = seedZ, folded r_def pt_def]
  have first: "exitPeriod r = k" if "k < maxOrbitSteps" "\<forall>i<k. \<not> stopsAt pt i" "stopsAt pt k" for k
  proof (rule ccontr)
    assume "exitPeriod r \<noteq> k"
    then consider "exitPeriod r < k" | "k < exitPeriod r" by linarith
    then show False
    proof cases
      case 1
      then have "stopsAt pt (exitPeriod r)" using spec(4) that(1) by simp
      then show False using that(2) 1 by simp
    next
      case 2
      then show False using spec(3) that(3) by simp
    qed
  qed
  have none: "exitPeriod r = maxOrbitSteps" if "\<forall>i<maxOrbitSteps. \<not> stopsAt pt i"
  proof (rule ccontr)
    assume "exitPeriod r \<noteq> maxOrbitSteps"
    then have lt: "exitPeriod r < maxOrbitSteps" using spec(1) by simp
    then show False using spec(4) that by simp
  qed
  have exh: "(classify maxOrbitSteps r = Exhausted) = (exitPeriod r = maxOrbitSteps)"
    using spec(1) spec(5) by (auto simp: classify_def)
  have per: "exitPeriod r = k \<and> k < maxOrbitSteps" if "classify maxOrbitSteps r = PeriodFound k" for k
    using that spec(5) by (auto simp: classify_def split: if_splits)
  have esc: "exitPeriod r < maxOrbitSteps" if "classify maxOrbitSteps r = Escaped"
    using that by (auto simp: classify_def split: if_splits)
  have run1: "traceOrbit 1 1 0 maxOrbit = \<lparr>exitPeriod = 1, exitOrbit = [2, 5], exitFound = False\<rparr>"
    by (simp add: loop_eval maxOrbit_def)
  have run0: "traceOrbit 0 0 0 maxOrbit = \<lparr>exitPeriod = 1, exitOrbit = [0, 0], exitFound = True\<rparr>"
    by (simp add: loop_eval maxOrbit_def)
  have c1: "classify maxOrbit (traceOrbit 1 1 0 maxOrbit) = Escaped"
    unfolding run1 classify_def by (simp add: maxOrbit_def)
  have c0: "classify maxOrbit (traceOrbit 0 0 0 maxOrbit) = PeriodFound 1"
    unfolding run0 classify_def by simp
  have same: "exitPeriod (traceOrbit 1 1 0 maxOrbit) = exitPeriod (traceOrbit 0 0 0 maxOrbit)"
    by (simp add: run1 run0)
  show ?thesis
    using spec(1) exh none first per esc c1 c0 same
    by (simp add: stopsAt_def)
qed

text \<open>Formula 1 from seed and constant 1: the count is 1, below the bound of 1000.\<close>

theorem traceOrbit_step_count_witness:
  "(0::nat) < length formulas
   \<and> exitPeriod (traceOrbit 1 1 0 maxOrbit) = 1
   \<and> exitPeriod (traceOrbit 1 1 0 maxOrbit) \<le> maxOrbit
   \<and> classify maxOrbit (traceOrbit 1 1 0 maxOrbit) \<noteq> Exhausted
   \<and> classify maxOrbit (traceOrbit 1 1 0 maxOrbit) = Escaped
   \<and> classify maxOrbit (traceOrbit 0 0 0 maxOrbit) = PeriodFound 1
   \<and> exitPeriod (traceOrbit 0 0 0 maxOrbit) = 1"
proof -
  have len: "(0::nat) < length formulas"
    by (simp add: formulas_def)
  have run1: "traceOrbit 1 1 0 maxOrbit = \<lparr>exitPeriod = 1, exitOrbit = [2, 5], exitFound = False\<rparr>"
    by (simp add: loop_eval maxOrbit_def)
  have per: "exitPeriod (traceOrbit 1 1 0 maxOrbit) = 1"
    by (simp add: run1)
  have ne: "(1::nat) \<noteq> maxOrbit"
    by (simp add: maxOrbit_def)
  show ?thesis
    using traceOrbit_step_count [OF len, of 1 1 maxOrbit] len per ne by simp
qed

section \<open>The escape-time field\<close>

text \<open>
  Claim C8. For every viewport, mode, Julia constant and formula, the count \<^verbatim>\<open>iter\<close> of
  every pixel lies between 0 and \<^verbatim>\<open>maxIter\<close>, and it is \<^verbatim>\<open>maxIter\<close> exactly when none of
  the \<^verbatim>\<open>maxIter\<close> points the loop computes (the iterates 1 to \<^verbatim>\<open>maxIter\<close> of the formula
  from the pixel's point) has magnitude above 2. Below \<^verbatim>\<open>maxIter\<close>, the count is the pass
  whose point first has magnitude above 2.
\<close>

theorem pixelIter_field_bounds:
  fixes zoom :: real and offset :: Vector2f and juliaMode :: bool and juliaC :: complex
    and formulaIndex px py :: nat
  defines "c \<equiv> screenToComplex (int px) (int py) zoom offset width height"
  defines "cc \<equiv> (if juliaMode then juliaC else c)"
  defines "iter \<equiv> pixelIter zoom offset juliaMode juliaC formulaIndex px py"
  assumes "formulaIndex < length formulas"
  shows "0 \<le> iter \<and> iter \<le> maxIter
    \<and> (iter = maxIter) = (\<forall>k<maxIter. cmod (iterate formulaIndex cc c (Suc k)) \<le> 2)
    \<and> (\<forall>k<iter. cmod (iterate formulaIndex cc c (Suc k)) \<le> 2)
    \<and> (iter < maxIter \<longrightarrow> cmod (iterate formulaIndex cc c (Suc iter)) > 2)"
proof -
  have it: "iter = escapeLoop formulaIndex cc maxIter 0 c"
    by (simp add: iter_def pixelIter_def Let_def c_def cc_def)
  have spec: "iter \<le> maxIter"
    "\<forall>i. i < iter \<longrightarrow> cmod (iterate formulaIndex cc c (Suc i)) \<le> 2"
    "iter < maxIter \<longrightarrow> cmod (iterate formulaIndex cc c (Suc iter)) > 2"
    using escapeLoop_spec [where iter = 0 and bound = maxIter and z = c and z0 = c
        and formulaIndex = formulaIndex and cc = cc and r = iter] it
    by (simp_all add: iterate_0)
  have "(iter = maxIter) = (\<forall>k<maxIter. cmod (iterate formulaIndex cc c (Suc k)) \<le> 2)"
  proof
    assume "iter = maxIter"
    then show "\<forall>k<maxIter. cmod (iterate formulaIndex cc c (Suc k)) \<le> 2"
      using spec(2) by simp
  next
    assume all: "\<forall>k<maxIter. cmod (iterate formulaIndex cc c (Suc k)) \<le> 2"
    show "iter = maxIter"
    proof (rule ccontr)
      assume "iter \<noteq> maxIter"
      then have lt: "iter < maxIter" using spec(1) by simp
      then have "cmod (iterate formulaIndex cc c (Suc iter)) > 2" using spec(3) by simp
      moreover have "cmod (iterate formulaIndex cc c (Suc iter)) \<le> 2" using all lt by simp
      ultimately show False by simp
    qed
  qed
  then show ?thesis using spec by simp
qed

text \<open>
  At the initial view with formula 1, the pixel (799, 300) is the point 399/250, whose
  first iterate already has magnitude above 2: its count is 0. The pixel (400, 300) is the
  origin, which formula 1 fixes: its count is \<^verbatim>\<open>maxIter\<close>.
\<close>

theorem pixelIter_field_bounds_witness:
  "(0::nat) < length formulas
   \<and> pixelIter 250 (Vector2f 0 0) False 0 0 799 300 = 0
   \<and> pixelIter 250 (Vector2f 0 0) False 0 0 799 300 \<le> maxIter
   \<and> \<not> (\<forall>k<maxIter. cmod (iterate 0 (Complex (399 / 250) 0) (Complex (399 / 250) 0) (Suc k)) \<le> 2)
   \<and> pixelIter 250 (Vector2f 0 0) False 0 0 400 300 = maxIter"
proof -
  have len: "(0::nat) < length formulas"
    by (simp add: formulas_def)
  have c: "screenToComplex 799 300 250 (Vector2f 0 0) width height = Complex (399 / 250) 0"
    by (simp add: screenToComplex_def width_def height_def)
  have edge: "pixelIter 250 (Vector2f 0 0) False 0 0 799 300 = 0"
    by (simp add: pixelIter_def c maxIter_def loop_eval)
  have c0: "screenToComplex 400 300 250 (Vector2f 0 0) width height = 0"
    by (simp add: screenToComplex_def width_def height_def complex_eq_iff)
  have centre: "pixelIter 250 (Vector2f 0 0) False 0 0 400 300 = maxIter"
    by (simp add: pixelIter_def c0 maxIter_def loop_eval)
  have ne: "(0::nat) \<noteq> maxIter"
    by (simp add: maxIter_def)
  show ?thesis
    using pixelIter_field_bounds [OF len, of 250 "Vector2f 0 0" False 0 799 300] len edge centre c ne
    by simp
qed

text \<open>
  The image holds the count of each pixel scaled to a grey level, \<open>255 * iter / maxIter\<close>
  in integer arithmetic; the level fits the eight bits it is cast to.
\<close>

lemma pixelIter_le: "pixelIter zoom offset juliaMode juliaC formulaIndex px py \<le> maxIter"
proof -
  let ?c = "screenToComplex (int px) (int py) zoom offset width height"
  let ?cc = "if juliaMode then juliaC else ?c"
  have "pixelIter zoom offset juliaMode juliaC formulaIndex px py
      = escapeLoop formulaIndex ?cc maxIter 0 ?c"
    by (simp add: pixelIter_def Let_def)
  then show ?thesis
    using escapeLoop_spec [where iter = 0 and bound = maxIter and z = ?c and z0 = ?c
        and formulaIndex = formulaIndex and cc = ?cc
        and r = "pixelIter zoom offset juliaMode juliaC formulaIndex px py"]
    by (simp add: iterate_0)
qed

lemma pixelColor_eq:
  "pixelColor zoom offset juliaMode juliaC formulaIndex px py
     = 255 * pixelIter zoom offset juliaMode juliaC formulaIndex px py div maxIter"
proof -
  have "255 * pixelIter zoom offset juliaMode juliaC formulaIndex px py div maxIter \<le> 255"
    using pixelIter_le [of zoom offset juliaMode juliaC formulaIndex px py]
    by (simp add: maxIter_def)
  then show ?thesis by (simp add: pixelColor_def)
qed

lemma computeFractal_pixel:
  "px < 800 \<Longrightarrow> py < 600 \<Longrightarrow>
   computeFractal zoom offset juliaMode juliaC formulaIndex ! px ! py
     = 255 * pixelIter zoom offset juliaMode juliaC formulaIndex px py div maxIter"
  by (simp add: computeFractal_def width_def height_def pixelColor_eq)

section \<open>Iterates that are not finite\<close>

subsection \<open>Overflow of squares and products\<close>

lemma FLT_MAX_ge: "FLT_MAX \<ge> 4"
  by (simp add: FLT_MAX_def)

lemma isFin_overflow_iff: "isFin (overflow x) \<longleftrightarrow> \<bar>x\<bar> \<le> FLT_MAX"
  by (auto simp: overflow_def)


lemma overflow_not_NaN [simp]: "overflow x \<noteq> NaN"
  by (simp add: overflow_def)










lemma isInf_fabs [simp]: "isInf (fabs x) = isInf x"
  by (cases x) simp_all

lemma isFin_fabs [simp]: "isFin (fabs x) = isFin x"
  by (cases x) simp_all

lemma isInf_fneg [simp]: "isInf (fneg x) = isInf x"
  by (cases x) simp_all

lemma isFin_fneg [simp]: "isFin (fneg x) = isFin x"
  by (cases x) simp_all








subsection \<open>Infinite and NaN magnitudes in the loops\<close>

lemma iterateF_0: "iterateF formulaIndex cc z 0 = z"
  by (simp add: iterateF_def)

lemma iterateF_Suc:
  "iterateF formulaIndex cc z (Suc n) = (formulasF ! formulaIndex) (iterateF formulaIndex cc z n) cc"
  by (simp add: iterateF_def)



lemma hasInf_not_isFinite: "hasInf z \<Longrightarrow> \<not> isFinite z"
  by (cases z; cases "creal z"; cases "cimag z") (auto simp: hasInf_def isFinite_def)


lemma hypot_not_isFin: "\<not> isFin x \<or> \<not> isFin y \<Longrightarrow> hypot x y = PInf \<or> hypot x y = NaN"
  by (cases x; cases y) simp_all


lemma scanOrbitF_end: "\<not> j < period \<Longrightarrow> scanOrbitF z orbit period j = False"
  by (subst scanOrbitF.simps) simp

lemma scanOrbitF_hit:
  "j < period \<Longrightarrow> nearF z (orbit ! j) \<Longrightarrow> scanOrbitF z orbit period j = True"
  by (subst scanOrbitF.simps) simp

lemma scanOrbitF_miss:
  "j < period \<Longrightarrow> \<not> nearF z (orbit ! j) \<Longrightarrow>
   scanOrbitF z orbit period j = scanOrbitF z orbit period (Suc j)"
  by (subst scanOrbitF.simps) simp


lemma escapeLoopF_end: "\<not> iter < bound \<Longrightarrow> escapeLoopF formulaIndex cc bound iter z = iter"
  by (subst escapeLoopF.simps) simp

lemma escapeLoopF_break:
  "iter < bound \<Longrightarrow> escapedF ((formulasF ! formulaIndex) z cc) \<Longrightarrow>
   escapeLoopF formulaIndex cc bound iter z = iter"
  by (subst escapeLoopF.simps) (simp add: Let_def)

lemma escapeLoopF_continue:
  "iter < bound \<Longrightarrow> \<not> escapedF ((formulasF ! formulaIndex) z cc) \<Longrightarrow>
   escapeLoopF formulaIndex cc bound iter z =
     escapeLoopF formulaIndex cc bound (Suc iter) ((formulasF ! formulaIndex) z cc)"
  by (subst escapeLoopF.simps) (simp add: Let_def)

lemma orbitLoopF_end:
  "\<not> period < bound \<Longrightarrow>
   orbitLoopF formulaIndex cc bound period z orbit =
     \<lparr>exitPeriodF = period, exitOrbitF = orbit, exitFoundF = False\<rparr>"
  by (subst orbitLoopF.simps) simp

lemma orbitLoopF_break:
  "period < bound \<Longrightarrow>
   scanOrbitF ((formulasF ! formulaIndex) z cc) (orbit @ [(formulasF ! formulaIndex) z cc]) period 0
     \<or> escapedF ((formulasF ! formulaIndex) z cc) \<Longrightarrow>
   orbitLoopF formulaIndex cc bound period z orbit =
     \<lparr>exitPeriodF = period, exitOrbitF = orbit @ [(formulasF ! formulaIndex) z cc],
      exitFoundF = scanOrbitF ((formulasF ! formulaIndex) z cc)
                    (orbit @ [(formulasF ! formulaIndex) z cc]) period 0\<rparr>"
  by (subst orbitLoopF.simps) (simp add: Let_def)

lemma orbitLoopF_continue:
  "period < bound \<Longrightarrow>
   \<not> scanOrbitF ((formulasF ! formulaIndex) z cc) (orbit @ [(formulasF ! formulaIndex) z cc]) period 0 \<Longrightarrow>
   \<not> escapedF ((formulasF ! formulaIndex) z cc) \<Longrightarrow>
   orbitLoopF formulaIndex cc bound period z orbit =
     orbitLoopF formulaIndex cc bound (Suc period) ((formulasF ! formulaIndex) z cc)
       (orbit @ [(formulasF ! formulaIndex) z cc])"
  by (subst orbitLoopF.simps) (simp add: Let_def)







subsection \<open>Agreement with the exact embedding\<close>

text \<open>
  On the points of the plane the two embeddings have the same tests, and a formula whose
  result is finite gives the same point in both. So as long as every iterate is finite, the
  loops over floats return what the loops over the reals return.
\<close>

lemma escapedF_toF: "escapedF (toF z) \<longleftrightarrow> cmod z > 2"
proof -
  have "FLT_MAX \<ge> 2" using FLT_MAX_ge by simp
  then show ?thesis
    by (auto simp: escapedF_def toF_def cabs_def overflow_def cmod_def)
qed

lemma csub_toF:
  "isFinite (csub (toF z) (toF p)) \<Longrightarrow> csub (toF z) (toF p) = toF (z - p)"
  by (auto simp: csub_def toF_def fsub_def overflow_def isFinite_def split: if_splits)

lemma nearF_toF: "nearF (toF z) (toF p) \<longleftrightarrow> cmod (z - p) < 1 / 10000"
proof (cases "isFinite (csub (toF z) (toF p))")
  case True
  have M: "FLT_MAX \<ge> 1" using FLT_MAX_ge by simp
  have "nearF (toF z) (toF p) \<longleftrightarrow> fless (cabs (toF (z - p))) (Fin (1 / 10000))"
    using csub_toF [OF True] by (simp add: nearF_def)
  also have "\<dots> \<longleftrightarrow> cmod (z - p) < 1 / 10000"
    using M by (auto simp: toF_def cabs_def overflow_def cmod_def)
  finally show ?thesis .
next
  case False
  then have "\<not> nearF (toF z) (toF p)"
    using hypot_not_isFin [of "fsub (Fin (Re z)) (Fin (Re p))" "fsub (Fin (Im z)) (Fin (Im p))"]
    by (auto simp: nearF_def cabs_def csub_def toF_def isFinite_def)
  moreover have "\<not> cmod (z - p) < 1 / 10000"
  proof -
    have "\<bar>Re (z - p)\<bar> > FLT_MAX \<or> \<bar>Im (z - p)\<bar> > FLT_MAX"
      using False by (auto simp: csub_def toF_def fsub_def overflow_def isFinite_def split: if_splits)
    moreover have "\<bar>Re (z - p)\<bar> \<le> cmod (z - p)" "\<bar>Im (z - p)\<bar> \<le> cmod (z - p)"
      by (rule abs_Re_le_cmod, rule abs_Im_le_cmod)
    ultimately show ?thesis using FLT_MAX_ge by linarith
  qed
  ultimately show ?thesis by simp
qed

lemma isFin_iff: "isFin x \<longleftrightarrow> (\<exists>r. x = Fin r)"
  by (cases x) simp_all

lemma overflow_FinD: "overflow x = Fin r \<Longrightarrow> r = x"
  by (auto simp: overflow_def split: if_splits)

lemma fadd_FinD: "fadd x y = Fin r \<Longrightarrow> \<exists>a b. x = Fin a \<and> y = Fin b \<and> r = a + b"
  by (cases x; cases y) (auto dest: overflow_FinD)

lemma fmul_FinD: "fmul x y = Fin r \<Longrightarrow> \<exists>a b. x = Fin a \<and> y = Fin b \<and> r = a * b"
  by (cases x; cases y) (auto dest: overflow_FinD split: if_splits)

lemma fabs_FinD: "fabs x = Fin r \<Longrightarrow> \<exists>a. x = Fin a \<and> r = \<bar>a\<bar>"
  by (cases x) auto

lemma fneg_FinD: "fneg x = Fin r \<Longrightarrow> \<exists>a. x = Fin a \<and> r = - a"
  by (cases x) auto

lemma fsub_FinD: "fsub x y = Fin r \<Longrightarrow> \<exists>a b. x = Fin a \<and> y = Fin b \<and> r = a - b"
  unfolding fsub_def by (cases x; cases y) (auto dest: overflow_FinD)

lemma cadd_toF_FinD:
  assumes "isFinite (cadd (Cfloat x y) (toF c))"
  shows "\<exists>a b. x = Fin a \<and> y = Fin b \<and> cadd (Cfloat x y) (toF c) = toF (Complex a b + c)"
proof -
  obtain r s where r: "fadd x (Fin (Re c)) = Fin r" and s: "fadd y (Fin (Im c)) = Fin s"
    using assms by (auto simp: isFinite_def cadd_def toF_def isFin_iff)
  from fadd_FinD [OF r] fadd_FinD [OF s] show ?thesis
    using r s by (auto simp: cadd_def toF_def)
qed

lemma re2_FinD:
  assumes "fsub (fmul (Fin a) (Fin a)) (fmul (Fin b) (Fin b)) = Fin r"
  shows "r = a * a - b * b"
  using fsub_FinD [OF assms] by (auto dest: overflow_FinD)

lemma im2_FinD:
  assumes "fmul (fmul (Fin 2) (Fin a)) (Fin b) = Fin r"
  shows "r = 2 * a * b"
  using fmul_FinD [OF assms] by (auto dest: overflow_FinD)

lemma re_part_FinD:
  assumes "fadd (fmul (Fin a) (fabs (Fin a))) (fmul (Fin b) (Fin b)) = Fin r"
  shows "r = a * \<bar>a\<bar> + b * b"
  using fadd_FinD [OF assms] by (auto dest: overflow_FinD)

lemma formula1F_toF:
  assumes "isFinite (formula1F (toF z) (toF c))"
  shows "formula1F (toF z) (toF c) = toF (formula1 z c)"
proof -
  let ?re2 = "fsub (fmul (Fin (Re z)) (Fin (Re z))) (fmul (Fin (Im z)) (Fin (Im z)))"
  let ?im2 = "fmul (fmul (Fin 2) (Fin (Re z))) (Fin (Im z))"
  have eq: "formula1F (toF z) (toF c) = cadd (Cfloat (fabs ?re2) ?im2) (toF c)"
    by (simp add: formula1F_def Let_def toF_def)
  then obtain u v where u: "fabs ?re2 = Fin u" and v: "?im2 = Fin v"
    and res: "formula1F (toF z) (toF c) = toF (Complex u v + c)"
    using cadd_toF_FinD [of "fabs ?re2" ?im2 c] assms by auto
  from fabs_FinD [OF u] obtain w where w: "?re2 = Fin w" and uw: "u = \<bar>w\<bar>" by blast
  have "w = Re z * Re z - Im z * Im z" using w by (rule re2_FinD)
  moreover have "v = 2 * Re z * Im z" using v by (rule im2_FinD)
  ultimately show ?thesis using res uw by (simp add: formula1_def Let_def)
qed


lemma formula2F_toF:
  assumes "isFinite (formula2F (toF z) (toF c))"
  shows "formula2F (toF z) (toF c) = toF (formula2 z c)"
proof -
  let ?re2 = "fsub (fmul (Fin (Re z)) (Fin (Re z))) (fmul (Fin (Im z)) (Fin (Im z)))"
  let ?im2 = "fmul (fmul (Fin 2) (Fin (Re z))) (Fin (Im z))"
  have eq: "formula2F (toF z) (toF c) = cadd (Cfloat (fabs ?re2) (fabs ?im2)) (toF c)"
    by (simp add: formula2F_def Let_def toF_def)
  then obtain u v where u: "fabs ?re2 = Fin u" and v: "fabs ?im2 = Fin v"
    and res: "formula2F (toF z) (toF c) = toF (Complex u v + c)"
    using cadd_toF_FinD [of "fabs ?re2" "fabs ?im2" c] assms by auto
  from fabs_FinD [OF u] obtain w where w: "?re2 = Fin w" and uw: "u = \<bar>w\<bar>" by blast
  from fabs_FinD [OF v] obtain y where y: "?im2 = Fin y" and vy: "v = \<bar>y\<bar>" by blast
  have "w = Re z * Re z - Im z * Im z" using w by (rule re2_FinD)
  moreover have "y = 2 * Re z * Im z" using y by (rule im2_FinD)
  ultimately show ?thesis using res uw vy by (simp add: formula2_def Let_def)
qed

lemma formula3F_toF:
  assumes "isFinite (formula3F (toF z) (toF c))"
  shows "formula3F (toF z) (toF c) = toF (formula3 z c)"
proof -
  let ?re2 = "fsub (fmul (Fin (Re z)) (Fin (Re z))) (fmul (Fin (Im z)) (Fin (Im z)))"
  let ?im2 = "fmul (fmul (Fin 2) (Fin (Re z))) (Fin (Im z))"
  have eq: "formula3F (toF z) (toF c) = cadd (Cfloat ?re2 (fneg ?im2)) (toF c)"
    by (simp add: formula3F_def Let_def toF_def)
  then obtain u v where u: "?re2 = Fin u" and v: "fneg ?im2 = Fin v"
    and res: "formula3F (toF z) (toF c) = toF (Complex u v + c)"
    using cadd_toF_FinD [of ?re2 "fneg ?im2" c] assms by auto
  from fneg_FinD [OF v] obtain y where y: "?im2 = Fin y" and vy: "v = - y" by blast
  have "u = Re z * Re z - Im z * Im z" using u by (rule re2_FinD)
  moreover have "y = 2 * Re z * Im z" using y by (rule im2_FinD)
  ultimately show ?thesis using res vy by (simp add: formula3_def Let_def)
qed

lemma formula4F_toF:
  assumes "isFinite (formula4F (toF z) (toF c))"
  shows "formula4F (toF z) (toF c) = toF (formula4 z c)"
proof -
  let ?re = "fadd (fmul (Fin (Re z)) (fabs (Fin (Re z)))) (fmul (Fin (Im z)) (Fin (Im z)))"
  let ?im = "fmul (fmul (Fin 2) (Fin (Re z))) (Fin (Im z))"
  have eq: "formula4F (toF z) (toF c) = cadd (Cfloat (fabs ?re) ?im) (toF c)"
    by (simp add: formula4F_def Let_def toF_def)
  then obtain u v where u: "fabs ?re = Fin u" and v: "?im = Fin v"
    and res: "formula4F (toF z) (toF c) = toF (Complex u v + c)"
    using cadd_toF_FinD [of "fabs ?re" ?im c] assms by auto
  from fabs_FinD [OF u] obtain w where w: "?re = Fin w" and uw: "u = \<bar>w\<bar>" by blast
  have "w = Re z * \<bar>Re z\<bar> + Im z * Im z" using w by (rule re_part_FinD)
  moreover have "v = 2 * Re z * Im z" using v by (rule im2_FinD)
  ultimately show ?thesis using res uw by (simp add: formula4_def Let_def)
qed

lemma formulasF_toF:
  assumes "formulaIndex < length formulas"
    and "isFinite ((formulasF ! formulaIndex) (toF z) (toF c))"
  shows "(formulasF ! formulaIndex) (toF z) (toF c) = toF ((formulas ! formulaIndex) z c)"
proof -
  have "formulaIndex = 0 \<or> formulaIndex = 1 \<or> formulaIndex = 2 \<or> formulaIndex = 3"
    using assms(1) by (auto simp: formulas_def)
  then show ?thesis
    using assms(2) formula1F_toF [of z c] formula2F_toF [of z c] formula3F_toF [of z c]
      formula4F_toF [of z c]
    by (auto simp: formulasF_def formulas_def)
qed

lemma iterateF_shift:
  "iterateF formulaIndex cc z (Suc n) = iterateF formulaIndex cc ((formulasF ! formulaIndex) z cc) n"
  by (induction n) (simp_all add: iterateF_Suc iterateF_0)

lemma escapeLoopF_toF:
  assumes "formulaIndex < length formulas"
    and "\<forall>n. isFinite (iterateF formulaIndex (toF cc) (toF z) n)"
  shows "escapeLoopF formulaIndex (toF cc) bound iter (toF z) = escapeLoop formulaIndex cc bound iter z"
  using assms(2)
proof (induction "bound - iter" arbitrary: iter z)
  case 0
  then show ?case by (simp add: escapeLoopF_end escapeLoop_end)
next
  case (Suc m)
  then have lt: "iter < bound" by simp
  let ?z' = "(formulas ! formulaIndex) z cc"
  have "isFinite ((formulasF ! formulaIndex) (toF z) (toF cc))"
    using Suc.prems [rule_format, of "Suc 0"] by (simp add: iterateF_Suc iterateF_0)
  then have z': "(formulasF ! formulaIndex) (toF z) (toF cc) = toF ?z'"
    using assms(1) by (intro formulasF_toF)
  have fin': "\<forall>n. isFinite (iterateF formulaIndex (toF cc) (toF ?z') n)"
  proof
    fix n
    show "isFinite (iterateF formulaIndex (toF cc) (toF ?z') n)"
      using Suc.prems [rule_format, of "Suc n"] by (simp add: iterateF_shift z')
  qed
  show ?case
  proof (cases "cmod ?z' > 2")
    case True
    then show ?thesis using lt z' by (simp add: escapeLoopF_break escapeLoop_break escapedF_toF)
  next
    case False
    have "m = bound - Suc iter" using Suc.hyps(2) by simp
    then have "escapeLoopF formulaIndex (toF cc) bound (Suc iter) (toF ?z')
        = escapeLoop formulaIndex cc bound (Suc iter) ?z'"
      using Suc.hyps(1) fin' by blast
    then show ?thesis
      using False lt z' by (simp add: escapeLoopF_continue escapeLoop_continue escapedF_toF)
  qed
qed

lemma scanOrbitF_toF:
  assumes "period \<le> length orbit"
  shows "scanOrbitF (toF z) (map toF orbit) period j = scanOrbit z orbit period j"
proof (induction "period - j" arbitrary: j)
  case 0
  then show ?case by (simp add: scanOrbitF_end scanOrbit_end)
next
  case (Suc m)
  then have lt: "j < period" by simp
  then have nth: "map toF orbit ! j = toF (orbit ! j)"
    using assms by simp
  show ?case
  proof (cases "cmod (z - orbit ! j) < 1 / 10000")
    case True
    then show ?thesis
      using lt nth nearF_toF [of z "orbit ! j"]
      by (simp add: scanOrbitF_hit scanOrbit_hit del: nearF_toF)
  next
    case False
    have "m = period - Suc j" using Suc.hyps(2) by simp
    then have "scanOrbitF (toF z) (map toF orbit) period (Suc j) = scanOrbit z orbit period (Suc j)"
      using Suc.hyps(1) by blast
    then show ?thesis
      using False lt nth nearF_toF [of z "orbit ! j"]
      by (simp add: scanOrbitF_miss scanOrbit_miss)
  qed
qed

lemma orbitLoopF_toF:
  assumes "formulaIndex < length formulas"
    and "\<forall>n. isFinite (iterateF formulaIndex (toF cc) (toF z) n)"
    and "period \<le> length orbit"
  shows "exitPeriodF (orbitLoopF formulaIndex (toF cc) bound period (toF z) (map toF orbit))
        = exitPeriod (orbitLoop formulaIndex cc bound period z orbit)
    \<and> exitOrbitF (orbitLoopF formulaIndex (toF cc) bound period (toF z) (map toF orbit))
        = map toF (exitOrbit (orbitLoop formulaIndex cc bound period z orbit))
    \<and> exitFoundF (orbitLoopF formulaIndex (toF cc) bound period (toF z) (map toF orbit))
        = exitFound (orbitLoop formulaIndex cc bound period z orbit)"
  using assms(2,3)
proof (induction "bound - period" arbitrary: period z orbit)
  case 0
  then show ?case by (simp add: orbitLoopF_end orbitLoop_end)
next
  case (Suc m)
  then have lt: "period < bound" by simp
  let ?z' = "(formulas ! formulaIndex) z cc"
  have "isFinite ((formulasF ! formulaIndex) (toF z) (toF cc))"
    using Suc.prems(1) [rule_format, of "Suc 0"] by (simp add: iterateF_Suc iterateF_0)
  then have z': "(formulasF ! formulaIndex) (toF z) (toF cc) = toF ?z'"
    using assms(1) by (intro formulasF_toF)
  have fin': "\<forall>n. isFinite (iterateF formulaIndex (toF cc) (toF ?z') n)"
  proof
    fix n
    show "isFinite (iterateF formulaIndex (toF cc) (toF ?z') n)"
      using Suc.prems(1) [rule_format, of "Suc n"] by (simp add: iterateF_shift z')
  qed
  have app: "map toF orbit @ [toF ?z'] = map toF (orbit @ [?z'])" by simp
  have scan: "scanOrbitF (toF ?z') (map toF (orbit @ [?z'])) period 0
      = scanOrbit ?z' (orbit @ [?z']) period 0"
    using Suc.prems(2) by (intro scanOrbitF_toF) simp
  show ?case
  proof (cases "scanOrbit ?z' (orbit @ [?z']) period 0 \<or> cmod ?z' > 2")
    case True
    then show ?thesis
      using lt scan unfolding z' app
      by (simp add: orbitLoopF_break orbitLoop_break z' app escapedF_toF del: map_append)
  next
    case False
    have "m = bound - Suc period" using Suc.hyps(2) by simp
    moreover have "Suc period \<le> length (orbit @ [?z'])" using Suc.prems(2) by simp
    ultimately have IH: "exitPeriodF (orbitLoopF formulaIndex (toF cc) bound (Suc period) (toF ?z')
          (map toF (orbit @ [?z'])))
        = exitPeriod (orbitLoop formulaIndex cc bound (Suc period) ?z' (orbit @ [?z']))
      \<and> exitOrbitF (orbitLoopF formulaIndex (toF cc) bound (Suc period) (toF ?z')
          (map toF (orbit @ [?z'])))
        = map toF (exitOrbit (orbitLoop formulaIndex cc bound (Suc period) ?z' (orbit @ [?z'])))
      \<and> exitFoundF (orbitLoopF formulaIndex (toF cc) bound (Suc period) (toF ?z')
          (map toF (orbit @ [?z'])))
        = exitFound (orbitLoop formulaIndex cc bound (Suc period) ?z' (orbit @ [?z']))"
      using Suc.hyps(1) [of "Suc period" ?z' "orbit @ [?z']"] fin' by blast
    show ?thesis
      using False lt scan IH
      by (simp add: orbitLoopF_continue orbitLoop_continue z' app escapedF_toF del: map_append)
  qed
qed

subsection \<open>What the loops do with an iterate that is not finite\<close>

lemma overflow_small: "\<bar>x\<bar> \<le> FLT_MAX \<Longrightarrow> overflow x = Fin x"
  by (auto simp: overflow_def)





end
